theory Spec2Isabelle
  imports Complex_Main "HOL-Library.Word" "HOL-Library.Multiset"
begin

section \<open>JavaScript numbers\<close>

text \<open>
  The pipeline of \<^verbatim>\<open>src/App.tsx\<close> computes with JavaScript numbers and with
  TensorFlow.js float tensors. A number is modelled as a real or one of the three special
  values; rounding to the nearest float, overflow of finite arithmetic and the sign of
  zero are not modelled. The special values are kept because the code can produce them:
  \<^verbatim>\<open>Math.max()\<close> of no argument is \<^verbatim>\<open>-Infinity\<close>, and a division by zero is
  \<^verbatim>\<open>NaN\<close> or an infinity.
\<close>

datatype number = Val real | PosInf | NegInf | NaN

definition signed_inf :: "real \<Rightarrow> number" where
  "signed_inf s = (if 0 < s then PosInf else if s < 0 then NegInf else NaN)"

fun sign_of :: "number \<Rightarrow> real" where
  "sign_of (Val a) = sgn a"
| "sign_of PosInf = 1"
| "sign_of NegInf = - 1"
| "sign_of NaN = 0"

fun mul :: "number \<Rightarrow> number \<Rightarrow> number" where
  "mul NaN _ = NaN"
| "mul _ NaN = NaN"
| "mul (Val a) (Val b) = Val (a * b)"
| "mul a b = signed_inf (sign_of a * sign_of b)"

fun divide_num :: "number \<Rightarrow> number \<Rightarrow> number" where
  "divide_num NaN _ = NaN"
| "divide_num _ NaN = NaN"
| "divide_num (Val a) (Val b) = (if b = 0 then signed_inf a else Val (a / b))"
| "divide_num (Val a) _ = Val 0"
| "divide_num a (Val b) = signed_inf (sign_of a * (if b < 0 then - 1 else 1))"
| "divide_num _ _ = NaN"

fun sub :: "number \<Rightarrow> number \<Rightarrow> number" where
  "sub NaN _ = NaN"
| "sub _ NaN = NaN"
| "sub (Val a) (Val b) = Val (a - b)"
| "sub (Val a) PosInf = NegInf"
| "sub (Val a) NegInf = PosInf"
| "sub PosInf PosInf = NaN"
| "sub PosInf _ = PosInf"
| "sub NegInf NegInf = NaN"
| "sub NegInf _ = NegInf"

fun add :: "number \<Rightarrow> number \<Rightarrow> number" where
  "add NaN _ = NaN"
| "add _ NaN = NaN"
| "add (Val a) (Val b) = Val (a + b)"
| "add (Val a) b = b"
| "add PosInf NegInf = NaN"
| "add NegInf PosInf = NaN"
| "add a _ = a"

text \<open>\<^verbatim>\<open>Math.max(a, b)\<close> and \<^verbatim>\<open>Math.min(a, b)\<close>: \<^verbatim>\<open>NaN\<close> as soon as one argument is.\<close>

fun Math_max2 :: "number \<Rightarrow> number \<Rightarrow> number" where
  "Math_max2 NaN _ = NaN"
| "Math_max2 _ NaN = NaN"
| "Math_max2 PosInf _ = PosInf"
| "Math_max2 _ PosInf = PosInf"
| "Math_max2 NegInf b = b"
| "Math_max2 a NegInf = a"
| "Math_max2 (Val a) (Val b) = Val (max a b)"

fun Math_min2 :: "number \<Rightarrow> number \<Rightarrow> number" where
  "Math_min2 NaN _ = NaN"
| "Math_min2 _ NaN = NaN"
| "Math_min2 NegInf _ = NegInf"
| "Math_min2 _ NegInf = NegInf"
| "Math_min2 PosInf b = b"
| "Math_min2 a PosInf = a"
| "Math_min2 (Val a) (Val b) = Val (min a b)"

text \<open>The spread calls \<^verbatim>\<open>Math.max(...xs)\<close> and \<^verbatim>\<open>Math.min(...xs)\<close>.\<close>

definition Math_max :: "number list \<Rightarrow> number" where
  "Math_max xs = foldl Math_max2 NegInf xs"

definition Math_min :: "number list \<Rightarrow> number" where
  "Math_min xs = foldl Math_min2 PosInf xs"

text \<open>\<^verbatim>\<open>Math.round\<close> rounds a half towards plus infinity.\<close>

fun Math_round :: "number \<Rightarrow> number" where
  "Math_round (Val a) = Val (of_int \<lfloor>a + 1 / 2\<rfloor>)"
| "Math_round a = a"

text \<open>Strict equality \<^verbatim>\<open>a === b\<close> and the comparison \<^verbatim>\<open>a < b\<close> of two numbers.\<close>

definition strict_eq :: "number \<Rightarrow> number \<Rightarrow> bool" where
  "strict_eq a b = (a \<noteq> NaN \<and> a = b)"

fun less_num :: "number \<Rightarrow> number \<Rightarrow> bool" where
  "less_num NaN _ = False"
| "less_num _ NaN = False"
| "less_num (Val a) (Val b) = (a < b)"
| "less_num (Val a) PosInf = True"
| "less_num (Val a) NegInf = False"
| "less_num PosInf _ = False"
| "less_num NegInf NegInf = False"
| "less_num NegInf _ = True"

section \<open>Tensors and images\<close>

text \<open>
  A tensor is its shape and its indexing function; cells outside the shape are never
  read. \<^verbatim>\<open>tensor4\<close> is the input of the model, shape [batch, height, width, channels];
  \<^verbatim>\<open>tensor3\<close> is an image tensor [height, width, channels]; \<^verbatim>\<open>tensor2\<close> is a
  map [rows, cols]. A loop that fills a \<^verbatim>\<open>tf.buffer\<close> cell by cell, with a value that
  depends on the coordinates of the cell only, is the tensor with that cell function.
\<close>

record tensor4 =
  batch :: nat
  height :: nat
  width :: nat
  channels :: nat
  at4 :: "nat \<Rightarrow> nat \<Rightarrow> nat \<Rightarrow> nat \<Rightarrow> number"

record tensor3 =
  height3 :: nat
  width3 :: nat
  channels3 :: nat
  at3 :: "nat \<Rightarrow> nat \<Rightarrow> nat \<Rightarrow> number"

record tensor2 =
  rows :: nat
  cols :: nat
  cell :: "nat \<Rightarrow> nat \<Rightarrow> number"

text \<open>A decoded image: its size and the bytes of the three colour channels of a pixel.\<close>

record image =
  img_height :: nat
  img_width :: nat
  pixel :: "nat \<Rightarrow> nat \<Rightarrow> nat \<Rightarrow> 8 word"

text \<open>\<^verbatim>\<open>dataSync()\<close>: the cells in row-major order.\<close>

definition dataSync :: "tensor2 \<Rightarrow> number list" where
  "dataSync t = concat (map (\<lambda>y. map (cell t y) [0..<cols t]) [0..<rows t])"

text \<open>
  \<^verbatim>\<open>tf.image.resizeBilinear\<close> with its default options (no corner alignment, no half-pixel
  centres), as TensorFlow.js computes it: output index \<open>i\<close> reads the source at
  \<open>i * inSize / outSize\<close>, between the floor of that position and its ceiling (capped at the
  last index), and interpolates linearly, first along the columns and then along the rows.
\<close>

definition sourceFrac :: "nat \<Rightarrow> nat \<Rightarrow> nat \<Rightarrow> real" where
  "sourceFrac inSize outSize i = (real inSize / real outSize) * real i"

definition sourceFloor :: "nat \<Rightarrow> nat \<Rightarrow> nat \<Rightarrow> nat" where
  "sourceFloor inSize outSize i = nat (max 0 \<lfloor>sourceFrac inSize outSize i\<rfloor>)"

definition sourceCeil :: "nat \<Rightarrow> nat \<Rightarrow> nat \<Rightarrow> nat" where
  "sourceCeil inSize outSize i = min (inSize - 1) (nat \<lceil>sourceFrac inSize outSize i\<rceil>)"

definition lerp :: "number \<Rightarrow> number \<Rightarrow> real \<Rightarrow> number" where
  "lerp a b t = add a (mul (sub b a) (Val t))"

definition resizeBilinear_plane ::
  "nat \<Rightarrow> nat \<Rightarrow> (nat \<Rightarrow> nat \<Rightarrow> number) \<Rightarrow> nat \<Rightarrow> nat \<Rightarrow> nat \<Rightarrow> nat \<Rightarrow> number" where
  "resizeBilinear_plane oldHeight oldWidth f newHeight newWidth r c =
     (let sourceRowFloor = sourceFloor oldHeight newHeight r;
          rowFrac = sourceFrac oldHeight newHeight r - real sourceRowFloor;
          sourceRowCeil = sourceCeil oldHeight newHeight r;
          sourceColFloor = sourceFloor oldWidth newWidth c;
          colFrac = sourceFrac oldWidth newWidth c - real sourceColFloor;
          sourceColCeil = sourceCeil oldWidth newWidth c;
          topLeft = f sourceRowFloor sourceColFloor;
          bottomLeft = f sourceRowCeil sourceColFloor;
          topRight = f sourceRowFloor sourceColCeil;
          bottomRight = f sourceRowCeil sourceColCeil;
          top = lerp topLeft topRight colFrac;
          bottom = lerp bottomLeft bottomRight colFrac
      in lerp top bottom rowFrac)"

definition resizeBilinear3 :: "tensor3 \<Rightarrow> nat \<Rightarrow> nat \<Rightarrow> tensor3" where
  "resizeBilinear3 t newHeight newWidth =
     \<lparr>height3 = newHeight, width3 = newWidth, channels3 = channels3 t,
      at3 = (\<lambda>y x d. resizeBilinear_plane (height3 t) (width3 t) (\<lambda>r c. at3 t r c d)
                        newHeight newWidth y x)\<rparr>"

definition resizeBilinear2 :: "tensor2 \<Rightarrow> nat \<Rightarrow> nat \<Rightarrow> tensor2" where
  "resizeBilinear2 t newHeight newWidth =
     \<lparr>rows = newHeight, cols = newWidth,
      cell = resizeBilinear_plane (rows t) (cols t) (cell t) newHeight newWidth\<rparr>"

section \<open>The pipeline of src/App.tsx\<close>

text \<open>
  The functions \<^verbatim>\<open>preprocessImage\<close> (lines 262 to 276), \<^verbatim>\<open>generateGradCAM\<close> (lines
  279 to 416) and \<^verbatim>\<open>runInference\<close> (lines 419 to 459) of \<^verbatim>\<open>src/App.tsx\<close>, with the
  names of their variables. What they only log (the channel means, the mean of the heat
  map) is left out, and so is the disposal of tensors. The sizes of a tensor are taken to
  be positive.
\<close>

subsection \<open>preprocessImage\<close>

text \<open>
  \<^verbatim>\<open>tf.browser.fromPixels\<close> gives the [H, W, 3] tensor of the bytes; the image is then
  resized to 224 by 224, divided by 255 and given a batch dimension of 1.
\<close>

definition fromPixels :: "image \<Rightarrow> tensor3" where
  "fromPixels img =
     \<lparr>height3 = img_height img, width3 = img_width img, channels3 = 3,
      at3 = (\<lambda>y x d. Val (real (unat (pixel img y x d))))\<rparr>"

definition div_scalar3 :: "tensor3 \<Rightarrow> number \<Rightarrow> tensor3" where
  "div_scalar3 t k = t\<lparr>at3 := (\<lambda>y x d. divide_num (at3 t y x d) k)\<rparr>"

definition expandDims0 :: "tensor3 \<Rightarrow> tensor4" where
  "expandDims0 t =
     \<lparr>batch = 1, height = height3 t, width = width3 t, channels = channels3 t,
      at4 = (\<lambda>b. at3 t)\<rparr>"

definition preprocessImage :: "image \<Rightarrow> tensor4" where
  "preprocessImage img =
     (let tensor = fromPixels img;
          tensor = resizeBilinear3 tensor 224 224;
          tensor = div_scalar3 tensor (Val 255)
      in expandDims0 tensor)"

subsection \<open>generateGradCAM: the heat map\<close>

text \<open>
  \<^verbatim>\<open>inputTensor.squeeze([0])\<close> throws when the batch dimension is not 1; the exception is
  caught by the \<^verbatim>\<open>catch\<close> of \<^verbatim>\<open>generateGradCAM\<close>, which then returns \<^verbatim>\<open>null\<close>.
\<close>

definition squeeze0 :: "tensor4 \<Rightarrow> tensor3 option" where
  "squeeze0 t =
     (if batch t = 1
      then Some \<lparr>height3 = height t, width3 = width t, channels3 = channels t, at3 = at4 t 0\<rparr>
      else None)"

text \<open>\<^verbatim>\<open>Math.max(0.3, Math.max(...predictions) * 2)\<close>, lines 293 and 294.\<close>

definition confidenceBoost :: "number list \<Rightarrow> number" where
  "confidenceBoost predictions =
     (let maxConfidence = Math_max predictions
      in Math_max2 (Val (3 / 10)) (mul maxConfidence (Val 2)))"

text \<open>\<^verbatim>\<open>tf.mean(squeezed, 2)\<close>: the mean over the channels, line 301.\<close>

definition grayscale :: "tensor3 \<Rightarrow> tensor2" where
  "grayscale t =
     \<lparr>rows = height3 t, cols = width3 t,
      cell = (\<lambda>y x. divide_num (foldl add (Val 0) (map (at3 t y x) [0..<channels3 t]))
                        (Val (real (channels3 t))))\<rparr>"

text \<open>\<^verbatim>\<open>tf.div(grayscale, tf.max(grayscale))\<close>, line 304: no test of the divisor.\<close>

definition tf_max :: "tensor2 \<Rightarrow> number" where
  "tf_max t = Math_max (dataSync t)"

definition normalized_luminance :: "tensor2 \<Rightarrow> tensor2" where
  "normalized_luminance g = g\<lparr>cell := (\<lambda>y x. divide_num (cell g y x) (tf_max g))\<rparr>"

text \<open>The loop of lines 315 to 321: a linear falloff around the centre, times the boost.\<close>

definition distance_to :: "nat \<Rightarrow> nat \<Rightarrow> nat \<Rightarrow> nat \<Rightarrow> real" where
  "distance_to centerY centerX y x =
     sqrt ((real y - real centerY) ^ 2 + (real x - real centerX) ^ 2)"

definition mask_weight :: "nat \<Rightarrow> nat \<Rightarrow> nat \<Rightarrow> nat \<Rightarrow> real" where
  "mask_weight h w y x =
     (let centerY = h div 2;
          centerX = w div 2;
          radius = real (min h w) / 3;
          distance = distance_to centerY centerX y x
      in max 0 (1 - distance / radius))"

definition centerMask :: "nat \<Rightarrow> nat \<Rightarrow> number \<Rightarrow> tensor2" where
  "centerMask h w boost =
     \<lparr>rows = h, cols = w, cell = (\<lambda>y x. mul (Val (mask_weight h w y x)) boost)\<rparr>"

definition tf_mul :: "tensor2 \<Rightarrow> tensor2 \<Rightarrow> tensor2" where
  "tf_mul a b = a\<lparr>cell := (\<lambda>y x. mul (cell a y x) (cell b y x))\<rparr>"

definition heatmap_of :: "tensor3 \<Rightarrow> number list \<Rightarrow> tensor2" where
  "heatmap_of squeezed predictions =
     (let boost = confidenceBoost predictions;
          normalized = normalized_luminance (grayscale squeezed);
          centerWeights = centerMask (rows normalized) (cols normalized) boost
      in tf_mul normalized centerWeights)"

text \<open>
  Lines 339 to 363: the fixed pattern when the range of the heat map is exactly zero,
  otherwise the heat map resized to 224 by 224 and scaled to its range.
\<close>

definition fixed_pattern :: tensor2 where
  "fixed_pattern =
     \<lparr>rows = 224, cols = 224,
      cell = (\<lambda>y x. Val (max 0 (1 - distance_to 112 112 y x / 80)))\<rparr>"

definition normalizedHeatmap :: "tensor2 \<Rightarrow> tensor2" where
  "normalizedHeatmap heatmap =
     (let dataArray = dataSync heatmap;
          mn = Math_min dataArray;
          mx = Math_max dataArray;
          range = sub mx mn
      in if strict_eq range (Val 0) then fixed_pattern
         else let resized = resizeBilinear2 heatmap 224 224
              in resized\<lparr>cell := (\<lambda>y x. divide_num (sub (cell resized y x) mn) range)\<rparr>)"

text \<open>
  The normalised heat map that the \<^verbatim>\<open>try\<close> block computes when its spread calls stay
  within the argument limit of the engine (see \<open>generateGradCAM\<close> below): \<open>None\<close> when
  \<^verbatim>\<open>squeeze\<close> throws.
\<close>

definition saliency :: "tensor4 \<Rightarrow> number list \<Rightarrow> tensor2 option" where
  "saliency inputTensor predictions =
     (case squeeze0 inputTensor of
        None \<Rightarrow> None
      | Some squeezed \<Rightarrow> Some (normalizedHeatmap (heatmap_of squeezed predictions)))"

subsection \<open>generateGradCAM: colours and image data\<close>

text \<open>
  \<^verbatim>\<open>tf.clipByValue\<close> keeps \<^verbatim>\<open>NaN\<close>. A number written into the
  \<^verbatim>\<open>Uint8ClampedArray\<close> of an \<^verbatim>\<open>ImageData\<close> is clamped to 0..255 and rounded, a tie
  going to the even neighbour; \<^verbatim>\<open>NaN\<close> is written as 0.
\<close>

definition clipByValue :: "number \<Rightarrow> real \<Rightarrow> real \<Rightarrow> number" where
  "clipByValue x lo hi =
     (case x of
        Val v \<Rightarrow> Val (if hi < v then hi else if v < lo then lo else v)
      | PosInf \<Rightarrow> Val hi
      | NegInf \<Rightarrow> Val lo
      | NaN \<Rightarrow> NaN)"

definition round_half_even :: "real \<Rightarrow> int" where
  "round_half_even a =
     (if a - of_int \<lfloor>a\<rfloor> = 1 / 2 then (if even \<lfloor>a\<rfloor> then \<lfloor>a\<rfloor> else \<lfloor>a\<rfloor> + 1)
      else \<lfloor>a + 1 / 2\<rfloor>)"

definition toUint8Clamped :: "number \<Rightarrow> 8 word" where
  "toUint8Clamped x =
     (case x of
        Val v \<Rightarrow> word_of_int (round_half_even (max 0 (min 255 v)))
      | PosInf \<Rightarrow> 255
      | NegInf \<Rightarrow> 0
      | NaN \<Rightarrow> 0)"

record rgba =
  red :: "8 word"
  green :: "8 word"
  blue :: "8 word"
  alpha :: "8 word"

record ImageData =
  im_width :: nat
  im_height :: nat
  rgba_at :: "nat \<Rightarrow> rgba"

text \<open>
  Lines 366 to 403 for one cell of the normalised heat map: the three clipped channels,
  times 255, then the gains 1.2, 1 and 0.8, and the constant alpha of 200.
\<close>

definition heatmapPixel :: "number \<Rightarrow> rgba" where
  "heatmapPixel v =
     (let r = clipByValue (mul (sub v (Val (3 / 10))) (Val (5 / 2))) 0 1;
          g = clipByValue (mul v (Val (3 / 2))) 0 1;
          b = clipByValue (sub (Val 1) (mul v (Val 2))) 0 1;
          cr = mul r (Val 255);
          cg = mul g (Val 255);
          cb = mul b (Val 255);
          r8 = Math_round (Math_min2 (Val 255) (Math_max2 (Val 0) (mul cr (Val (6 / 5)))));
          g8 = Math_round (Math_min2 (Val 255) (Math_max2 (Val 0) cg));
          b8 = Math_round (Math_min2 (Val 255) (Math_max2 (Val 0) (mul cb (Val (4 / 5)))))
      in \<lparr>red = toUint8Clamped r8, green = toUint8Clamped g8, blue = toUint8Clamped b8,
          alpha = toUint8Clamped (Val 200)\<rparr>)"

text \<open>
  A spread call \<^verbatim>\<open>f(...xs)\<close> passes every element of \<open>xs\<close> as an argument, and the
  engine throws a \<^verbatim>\<open>RangeError\<close> when there are more than it accepts. That limit is
  a constant of the engine, not of the repository; it is the parameter \<open>maxArgs\<close>.
\<close>

definition spread_fits :: "nat \<Rightarrow> number list \<Rightarrow> bool" where
  "spread_fits maxArgs xs = (length xs \<le> maxArgs)"

text \<open>
  The whole function: \<^verbatim>\<open>null\<close> when an exception was caught, else the image data, whose
  pixel \<open>i\<close> is the cell \<open>(i div 224, i mod 224)\<close> of the normalised heat map. The
  exceptions are those of \<^verbatim>\<open>squeeze\<close> (line 286), of \<^verbatim>\<open>Math.max(...predictions)\<close>
  (line 293) and of \<^verbatim>\<open>Math.min(...dataArray)\<close> (line 332). A canvas context is taken
  to be available.
\<close>

definition generateGradCAM :: "nat \<Rightarrow> tensor4 \<Rightarrow> number list \<Rightarrow> ImageData option" where
  "generateGradCAM maxArgs inputTensor predictions =
     (case squeeze0 inputTensor of
        None \<Rightarrow> None
      | Some squeezed \<Rightarrow>
          if \<not> spread_fits maxArgs predictions then None
          else let heatmap = heatmap_of squeezed predictions
               in if \<not> spread_fits maxArgs (dataSync heatmap) then None
                  else let values = normalizedHeatmap heatmap
                       in Some \<lparr>im_width = 224, im_height = 224,
                                rgba_at = (\<lambda>i. heatmapPixel (cell values (i div 224) (i mod 224)))\<rparr>)"

subsection \<open>runInference: the reported predictions\<close>

text \<open>
  The labels of \<^verbatim>\<open>JANKEN_LABELS\<close> are written here in Latin letters (rock, scissors,
  paper). The scores of the classifier are taken to be finite. Lines 436 to 442: the first
  three scores, each with the label of its position, sorted by the comparator
  \<^verbatim>\<open>b.confidence - a.confidence\<close>; the sort of an array is stable.
\<close>

record JankenPrediction =
  label :: string
  confidence :: real

definition JANKEN_LABELS :: "string list" where
  "JANKEN_LABELS = [''guu'', ''choki'', ''paa'']"

fun decimal :: "nat \<Rightarrow> string" where
  "decimal n =
     (if n < 10 then [char_of (48 + n)] else decimal (n div 10) @ [char_of (48 + n mod 10)])"

definition label_of :: "nat \<Rightarrow> string" where
  "label_of index =
     (if index < length JANKEN_LABELS then JANKEN_LABELS ! index
      else ''Class '' @ decimal index)"

definition prediction_results :: "real list \<Rightarrow> JankenPrediction list" where
  "prediction_results predictionData =
     sort_key (\<lambda>p. - confidence p)
       (map (\<lambda>(index, c). \<lparr>label = label_of index, confidence = c\<rparr>)
          (enumerate 0 (take 3 predictionData)))"

section \<open>The reworked App component\<close>

text \<open>
  The sources hold a second App component, the text that follows the module declaration
  in \<^verbatim>\<open>src/vite-env.d.ts\<close>; it is built on the hooks of \<^verbatim>\<open>src/hooks\<close> and has its
  own \<^verbatim>\<open>generateGradCAM\<close> (lines 58 to 232 of that file) and \<^verbatim>\<open>runInference\<close>
  (lines 238 to 371). Its functions carry the suffix 2 here. Its \<^verbatim>\<open>preprocessImage\<close>
  and the second half of its heat map (the fixed pattern, the resizing, the scaling to
  the range) are those of \<^verbatim>\<open>src/App.tsx\<close>, line for line.
  They differ from those of \<^verbatim>\<open>src/App.tsx\<close> in the boost, which has a ceiling of 1, in
  the mask, which is Gaussian, in the colours, in the test for an empty score vector and
  in the clamping of the reported scores.
  This component is the one that uses the other modules of the sources (the hooks, the
  components, the types), and the formulas of the specification are its formulas;
  \<^verbatim>\<open>src/App.tsx\<close> is an older copy that stands alone.
\<close>

definition confidenceBoost2 :: "number list \<Rightarrow> number" where
  "confidenceBoost2 predictions =
     (let maxConfidence = Math_max predictions
      in Math_max2 (Val (3 / 10)) (Math_min2 (mul maxConfidence (Val 2)) (Val 1)))"

definition mask_weight2 :: "nat \<Rightarrow> nat \<Rightarrow> nat \<Rightarrow> nat \<Rightarrow> real" where
  "mask_weight2 h w y x =
     (let centerY = h div 2;
          centerX = w div 2;
          radius = real (min h w) / 3;
          distance = distance_to centerY centerX y x
      in exp (- (distance ^ 2) / (2 * (radius / 2) ^ 2)))"

definition centerMask2 :: "nat \<Rightarrow> nat \<Rightarrow> number \<Rightarrow> tensor2" where
  "centerMask2 h w boost =
     \<lparr>rows = h, cols = w, cell = (\<lambda>y x. mul (Val (mask_weight2 h w y x)) boost)\<rparr>"

definition heatmap_of2 :: "tensor3 \<Rightarrow> number list \<Rightarrow> tensor2" where
  "heatmap_of2 squeezed predictions =
     (let boost = confidenceBoost2 predictions;
          normalized = normalized_luminance (grayscale squeezed);
          centerWeights = centerMask2 (rows normalized) (cols normalized) boost
      in tf_mul normalized centerWeights)"

definition heatmapPixel2 :: "number \<Rightarrow> rgba" where
  "heatmapPixel2 v =
     (let r = clipByValue (mul (sub v (Val (1 / 5))) (Val 2)) 0 1;
          g = clipByValue (mul v (Val (9 / 5))) 0 1;
          b = clipByValue (sub (Val (6 / 5)) (mul v (Val 2))) 0 1;
          cr = mul r (Val 255);
          cg = mul g (Val 255);
          cb = mul b (Val 255);
          r8 = Math_round (Math_min2 (Val 255) (Math_max2 (Val 0) (mul cr (Val (13 / 10)))));
          g8 = Math_round (Math_min2 (Val 255) (Math_max2 (Val 0) (mul cg (Val (11 / 10)))));
          b8 = Math_round (Math_min2 (Val 255) (Math_max2 (Val 0) (mul cb (Val (9 / 10)))));
          a8 = Math_round (mul (Val 200)
                 (Math_min2 (Val 1) (divide_num (add (add r8 g8) b8) (Val 400))))
      in \<lparr>red = toUint8Clamped r8, green = toUint8Clamped g8, blue = toUint8Clamped b8,
          alpha = toUint8Clamped a8\<rparr>)"

text \<open>
  The \<^verbatim>\<open>try\<close> block of the reworked function, up to the normalised heat map. It
  throws \<^verbatim>\<open>Error('Invalid input parameters for Grad-CAM generation')\<close> when the score
  vector is empty (lines 63 to 65 of the file); \<^verbatim>\<open>squeeze\<close> and the spread calls throw
  as they do in \<^verbatim>\<open>src/App.tsx\<close>.
\<close>

datatype js_error = InvalidInput | SqueezeError | RangeError

definition saliency2 :: "nat \<Rightarrow> tensor4 \<Rightarrow> number list \<Rightarrow> js_error + tensor2" where
  "saliency2 maxArgs inputTensor predictions =
     (if length predictions = 0 then Inl InvalidInput
      else case squeeze0 inputTensor of
             None \<Rightarrow> Inl SqueezeError
           | Some squeezed \<Rightarrow>
               if \<not> spread_fits maxArgs predictions then Inl RangeError
               else let heatmap = heatmap_of2 squeezed predictions
                    in if \<not> spread_fits maxArgs (dataSync heatmap) then Inl RangeError
                       else Inr (normalizedHeatmap heatmap))"

text \<open>
  The \<^verbatim>\<open>catch\<close> of the reworked function draws an error sign instead of returning
  \<^verbatim>\<open>null\<close>: a red disc of radius 50 on a transparent image.
\<close>

definition fallbackImageData :: ImageData where
  "fallbackImageData =
     \<lparr>im_width = 224, im_height = 224,
      rgba_at = (\<lambda>pixelIndex.
        let y = pixelIndex div 224; x = pixelIndex mod 224
        in if distance_to 112 112 y x < 50
           then \<lparr>red = 255, green = 0, blue = 0, alpha = 100\<rparr>
           else \<lparr>red = 0, green = 0, blue = 0, alpha = 0\<rparr>)\<rparr>"

definition generateGradCAM2 :: "nat \<Rightarrow> tensor4 \<Rightarrow> number list \<Rightarrow> ImageData option" where
  "generateGradCAM2 maxArgs inputTensor predictions =
     (case saliency2 maxArgs inputTensor predictions of
        Inl e \<Rightarrow> Some fallbackImageData
      | Inr values \<Rightarrow>
          Some \<lparr>im_width = 224, im_height = 224,
                rgba_at = (\<lambda>i. heatmapPixel2 (cell values (i div 224) (i mod 224)))\<rparr>)"

definition label_of2 :: "nat \<Rightarrow> string" where
  "label_of2 index =
     (if index < length JANKEN_LABELS then JANKEN_LABELS ! index
      else ''Unknown-'' @ decimal index)"

definition prediction_results2 :: "real list \<Rightarrow> JankenPrediction list" where
  "prediction_results2 predictionData =
     sort_key (\<lambda>p. - confidence p)
       (map (\<lambda>(index, c). \<lparr>label = label_of2 index, confidence = max 0 (min 1 c)\<rparr>)
          (enumerate 0 (take (length JANKEN_LABELS) predictionData)))"

section \<open>The formulas of the specification\<close>

text \<open>
  These definitions follow the words of the specification, to be compared with the
  functions above: the clamp, the Gaussian weight of the radial mask, and the fallback
  map with its radius of 80 / 224 times the smaller side.
\<close>

definition clamp_spec :: "real \<Rightarrow> real \<Rightarrow> real \<Rightarrow> real" where
  "clamp_spec v lo hi = max lo (min v hi)"

definition gaussian_weight_spec :: "nat \<Rightarrow> nat \<Rightarrow> nat \<Rightarrow> nat \<Rightarrow> real" where
  "gaussian_weight_spec h w y x =
     exp (- ((distance_to (h div 2) (w div 2) y x) ^ 2) / (2 * ((real (min h w) / 3) / 2) ^ 2))"

definition fallback_spec :: "nat \<Rightarrow> nat \<Rightarrow> nat \<Rightarrow> nat \<Rightarrow> real" where
  "fallback_spec h w y x =
     max 0 (1 - distance_to (h div 2) (w div 2) y x / (80 / 224 * real (min h w)))"






text \<open>
  Steps 6 and 7 of the synthesiser, in the order of the specification: the raw map is
  scaled to its range, (value - min) / (max - min), and the scaled map is then resized
  to 224 by 224.
\<close>

definition normalize_spec :: "tensor2 \<Rightarrow> tensor2" where
  "normalize_spec m =
     (let mn = Math_min (dataSync m); mx = Math_max (dataSync m)
      in m\<lparr>cell := (\<lambda>y x. divide_num (sub (cell m y x) mn) (sub mx mn))\<rparr>)"

definition saliency_spec :: "tensor2 \<Rightarrow> tensor2" where
  "saliency_spec raw = resizeBilinear2 (normalize_spec raw) 224 224"

section \<open>Inputs used below\<close>

text \<open>
  A tensor of batch 1 whose pixels all have the same colour, an image of one grey level,
  and the reading of one cell of an optional map.
\<close>

definition flat_tensor :: "nat \<Rightarrow> nat \<Rightarrow> (nat \<Rightarrow> real) \<Rightarrow> tensor4" where
  "flat_tensor h w colour =
     \<lparr>batch = 1, height = h, width = w, channels = 3, at4 = (\<lambda>b y x d. Val (colour d))\<rparr>"

definition grey :: "real \<Rightarrow> nat \<Rightarrow> real" where
  "grey c d = c"

definition solid_image :: "nat \<Rightarrow> nat \<Rightarrow> 8 word \<Rightarrow> image" where
  "solid_image h w g = \<lparr>img_height = h, img_width = w, pixel = (\<lambda>y x d. g)\<rparr>"

definition cell_of :: "tensor2 option \<Rightarrow> nat \<Rightarrow> nat \<Rightarrow> number option" where
  "cell_of m y x = map_option (\<lambda>t. cell t y x) m"

definition cell_in :: "js_error + tensor2 \<Rightarrow> nat \<Rightarrow> nat \<Rightarrow> js_error + number" where
  "cell_in m y x = map_sum id (\<lambda>t. cell t y x) m"

definition squeezed_of :: "tensor4 \<Rightarrow> tensor3" where
  "squeezed_of t =
     \<lparr>height3 = height t, width3 = width t, channels3 = channels t, at3 = at4 t 0\<rparr>"

section \<open>Reductions over lists of numbers\<close>

lemma foldl_max_Val:
  "foldl Math_max2 (Val b) (map Val xs) = Val (Max (insert b (set xs)))"
proof (induction xs arbitrary: b)
  case Nil
  show ?case by simp
next
  case (Cons a xs)
  have "Max (insert (max b a) (set xs)) = Max (insert b (insert a (set xs)))"
    by (cases "set xs = {}") (simp_all add: max.assoc)
  then show ?case using Cons.IH [of "max b a"] by simp
qed

lemma foldl_min_Val:
  "foldl Math_min2 (Val b) (map Val xs) = Val (Min (insert b (set xs)))"
proof (induction xs arbitrary: b)
  case Nil
  show ?case by simp
next
  case (Cons a xs)
  have "Min (insert (min b a) (set xs)) = Min (insert b (insert a (set xs)))"
    by (cases "set xs = {}") (simp_all add: min.assoc)
  then show ?case using Cons.IH [of "min b a"] by simp
qed

lemma Math_max_Val: "xs \<noteq> [] \<Longrightarrow> Math_max (map Val xs) = Val (Max (set xs))"
  by (cases xs) (simp_all add: Math_max_def foldl_max_Val)

lemma Math_min_Val: "xs \<noteq> [] \<Longrightarrow> Math_min (map Val xs) = Val (Min (set xs))"
  by (cases xs) (simp_all add: Math_min_def foldl_min_Val)

lemma Math_max_Nil: "Math_max [] = NegInf"
  by (simp add: Math_max_def)

lemma foldl_max_NaN: "foldl Math_max2 NaN xs = NaN"
  by (induction xs) simp_all

lemma foldl_min_NaN: "foldl Math_min2 NaN xs = NaN"
  by (induction xs) simp_all

lemma Math_max2_NaN_right: "Math_max2 a NaN = NaN"
  by (cases a) simp_all

lemma Math_min2_NaN_right: "Math_min2 a NaN = NaN"
  by (cases a) simp_all

lemma foldl_max_has_NaN: "NaN \<in> set xs \<Longrightarrow> foldl Math_max2 a xs = NaN"
  by (induction xs arbitrary: a) (auto simp: Math_max2_NaN_right foldl_max_NaN)

lemma foldl_min_has_NaN: "NaN \<in> set xs \<Longrightarrow> foldl Math_min2 a xs = NaN"
  by (induction xs arbitrary: a) (auto simp: Math_min2_NaN_right foldl_min_NaN)

lemma confidenceBoost_Val:
  "confidenceBoost (map Val ps) = Val (if ps = [] then 3 / 10 else max (3 / 10) (Max (set ps) * 2))"
  by (cases "ps = []") (simp_all add: confidenceBoost_def Math_max_Val Math_max_Nil signed_inf_def)

lemma confidenceBoost2_Val:
  "confidenceBoost2 (map Val ps) =
     Val (if ps = [] then 3 / 10 else clamp_spec (Max (set ps) * 2) (3 / 10) 1)"
  by (cases "ps = []")
     (simp_all add: confidenceBoost2_def Math_max_Val Math_max_Nil signed_inf_def clamp_spec_def)


section \<open>The reported predictions\<close>

lemma label_of_small: "i < 3 \<Longrightarrow> label_of i = JANKEN_LABELS ! i"
  by (simp add: label_of_def JANKEN_LABELS_def)

lemma enumerate_take_map:
  "map f (enumerate 0 (take k d)) = map (\<lambda>i. f (i, d ! i)) [0..<min k (length d)]"
proof (rule nth_equalityI)
  show "length (map f (enumerate 0 (take k d))) = length (map (\<lambda>i. f (i, d ! i)) [0..<min k (length d)])"
    by (simp add: min.commute)
next
  fix i assume "i < length (map f (enumerate 0 (take k d)))"
  then have "i < k" "i < length d" by simp_all
  then show "map f (enumerate 0 (take k d)) ! i = map (\<lambda>i. f (i, d ! i)) [0..<min k (length d)] ! i"
    by (simp add: nth_enumerate_eq)
qed

lemma results_length: "length (prediction_results d) \<le> 3"
  by (simp add: prediction_results_def)

lemma results_sorted:
  "sorted_wrt (\<lambda>a b. confidence b \<le> confidence a) (prediction_results d)"
proof -
  have "sorted (map (\<lambda>p. - confidence p) (prediction_results d))"
    unfolding prediction_results_def by (rule sorted_sort_key)
  then show ?thesis by (simp add: sorted_map)
qed

lemma results_mset:
  "mset (prediction_results d) =
     mset (map (\<lambda>i. \<lparr>label = JANKEN_LABELS ! i, confidence = d ! i\<rparr>) [0..<min 3 (length d)])"
proof -
  have "map (\<lambda>(index, c). \<lparr>label = label_of index, confidence = c\<rparr>) (enumerate 0 (take 3 d))
        = map (\<lambda>i. \<lparr>label = JANKEN_LABELS ! i, confidence = d ! i\<rparr>) [0..<min 3 (length d)]"
    by (simp add: enumerate_take_map label_of_small)
  then show ?thesis by (simp add: prediction_results_def)
qed


section \<open>Reductions over the cells of a map\<close>

lemma set_dataSync: "set (dataSync t) = {cell t y x | y x. y < rows t \<and> x < cols t}"
  by (fastforce simp: dataSync_def)

lemma dataSync_Val:
  assumes "\<And>y x. y < rows t \<Longrightarrow> x < cols t \<Longrightarrow> cell t y x = Val (f y x)"
  shows "dataSync t = map Val (concat (map (\<lambda>y. map (f y) [0..<cols t]) [0..<rows t]))"
proof -
  have "map (\<lambda>y. map (cell t y) [0..<cols t]) [0..<rows t]
        = map (\<lambda>y. map Val (map (f y) [0..<cols t])) [0..<rows t]"
    by (rule map_cong) (simp_all add: assms)
  then show ?thesis unfolding dataSync_def by (simp only: map_concat map_map comp_def)
qed

lemma Math_max_dataSync:
  assumes cells: "\<And>y x. y < rows t \<Longrightarrow> x < cols t \<Longrightarrow> cell t y x = Val (f y x)"
    and at: "y0 < rows t" "x0 < cols t"
    and bound: "\<And>y x. y < rows t \<Longrightarrow> x < cols t \<Longrightarrow> f y x \<le> f y0 x0"
  shows "Math_max (dataSync t) = Val (f y0 x0)"
proof -
  let ?xs = "concat (map (\<lambda>y. map (f y) [0..<cols t]) [0..<rows t])"
  have set: "set ?xs = {f y x | y x. y < rows t \<and> x < cols t}" by fastforce
  have mem: "f y0 x0 \<in> set ?xs" unfolding set using at by blast
  then have ne: "?xs \<noteq> []" by auto
  have "Max (set ?xs) = f y0 x0"
  proof (rule Max_eqI)
    show "finite (set ?xs)" by simp
    show "f y0 x0 \<in> set ?xs" by (rule mem)
    fix v assume "v \<in> set ?xs"
    then show "v \<le> f y0 x0" unfolding set using bound by blast
  qed
  then show ?thesis using dataSync_Val [of t f, OF cells] Math_max_Val [OF ne] by simp
qed

lemma Math_min_dataSync:
  assumes cells: "\<And>y x. y < rows t \<Longrightarrow> x < cols t \<Longrightarrow> cell t y x = Val (f y x)"
    and at: "y0 < rows t" "x0 < cols t"
    and bound: "\<And>y x. y < rows t \<Longrightarrow> x < cols t \<Longrightarrow> f y0 x0 \<le> f y x"
  shows "Math_min (dataSync t) = Val (f y0 x0)"
proof -
  let ?xs = "concat (map (\<lambda>y. map (f y) [0..<cols t]) [0..<rows t])"
  have set: "set ?xs = {f y x | y x. y < rows t \<and> x < cols t}" by fastforce
  have mem: "f y0 x0 \<in> set ?xs" unfolding set using at by blast
  then have ne: "?xs \<noteq> []" by auto
  have "Min (set ?xs) = f y0 x0"
  proof (rule Min_eqI)
    show "finite (set ?xs)" by simp
    show "f y0 x0 \<in> set ?xs" by (rule mem)
    fix v assume "v \<in> set ?xs"
    then show "f y0 x0 \<le> v" unfolding set using bound by blast
  qed
  then show ?thesis using dataSync_Val [of t f, OF cells] Math_min_Val [OF ne] by simp
qed

lemma Math_max_dataSync_NaN:
  "y < rows t \<Longrightarrow> x < cols t \<Longrightarrow> cell t y x = NaN \<Longrightarrow> Math_max (dataSync t) = NaN"
proof -
  assume "y < rows t" "x < cols t" "cell t y x = NaN"
  then have "NaN \<in> set (dataSync t)" unfolding set_dataSync by force
  then show ?thesis unfolding Math_max_def by (rule foldl_max_has_NaN)
qed

lemma Math_min_dataSync_NaN:
  "y < rows t \<Longrightarrow> x < cols t \<Longrightarrow> cell t y x = NaN \<Longrightarrow> Math_min (dataSync t) = NaN"
proof -
  assume "y < rows t" "x < cols t" "cell t y x = NaN"
  then have "NaN \<in> set (dataSync t)" unfolding set_dataSync by force
  then show ?thesis unfolding Math_min_def by (rule foldl_min_has_NaN)
qed

section \<open>Resizing\<close>

lemma lerp_Val_same: "lerp (Val a) (Val a) t = Val a"
  by (simp add: lerp_def)

lemma lerp_NaN: "lerp NaN b t = NaN"
  by (simp add: lerp_def)

lemma resize_plane_flat:
  "resizeBilinear_plane oh ow (\<lambda>r c. Val v) nh nw y x = Val v"
  by (simp add: resizeBilinear_plane_def Let_def lerp_Val_same)

lemma preprocess_solid:
  "preprocessImage (solid_image h w g) = flat_tensor 224 224 (grey (real (unat g) / 255))"
  by (simp add: preprocessImage_def fromPixels_def solid_image_def resizeBilinear3_def
      resize_plane_flat div_scalar3_def expandDims0_def flat_tensor_def grey_def)

lemma sourceFrac_same: "y < n \<Longrightarrow> sourceFrac n n y = real y"
  by (simp add: sourceFrac_def)

lemma sourceFloor_same: "y < n \<Longrightarrow> sourceFloor n n y = y"
  by (simp add: sourceFloor_def sourceFrac_same)

lemma sourceCeil_same: "y < n \<Longrightarrow> sourceCeil n n y = y"
  by (simp add: sourceCeil_def sourceFrac_same)

lemma resize_plane_same_Val:
  "y < h \<Longrightarrow> x < w \<Longrightarrow> f y x = Val v \<Longrightarrow> resizeBilinear_plane h w f h w y x = Val v"
  by (simp add: resizeBilinear_plane_def Let_def sourceFrac_same sourceFloor_same
      sourceCeil_same lerp_Val_same)

lemma resize_plane_same_NaN:
  "y < h \<Longrightarrow> x < w \<Longrightarrow> f y x = NaN \<Longrightarrow> resizeBilinear_plane h w f h w y x = NaN"
  by (simp add: resizeBilinear_plane_def Let_def sourceFrac_same sourceFloor_same
      sourceCeil_same lerp_NaN)

section \<open>The mask of src/App.tsx\<close>

lemma mask_weight_range: "0 \<le> mask_weight h w y x \<and> mask_weight h w y x \<le> 1"
proof -
  have "0 \<le> distance_to (h div 2) (w div 2) y x / (real (min h w) / 3)"
    by (simp add: distance_to_def)
  then show ?thesis by (simp add: mask_weight_def Let_def)
qed

lemma mask_weight_centre: "mask_weight 224 224 112 112 = 1"
  by (simp add: mask_weight_def distance_to_def)

lemma distance_corner: "224 / 3 \<le> distance_to 112 112 0 0"
  unfolding distance_to_def by (rule real_le_rsqrt) (simp add: power2_eq_square)

lemma mask_weight_corner: "mask_weight 224 224 0 0 = 0"
  using distance_corner by (simp add: mask_weight_def Let_def)

lemma distance_112_36: "distance_to 112 112 112 36 = 76"
  unfolding distance_to_def by (rule real_sqrt_unique) simp_all

lemma mask_weight_112_36: "mask_weight 224 224 112 36 = 0"
  by (simp add: mask_weight_def Let_def distance_112_36)

section \<open>The heat map of an image of one colour\<close>

lemma squeeze0_flat:
  "squeeze0 (flat_tensor h w colour) =
     Some \<lparr>height3 = h, width3 = w, channels3 = 3, at3 = (\<lambda>y x d. Val (colour d))\<rparr>"
  by (simp add: squeeze0_def flat_tensor_def)

lemma upt3: "[0..<3] = [0, 1, 2]"
  by (simp add: upt_rec)

lemma grayscale_flat:
  "grayscale \<lparr>height3 = h, width3 = w, channels3 = 3, at3 = (\<lambda>y x d. Val (colour d))\<rparr> =
     \<lparr>rows = h, cols = w, cell = (\<lambda>y x. Val ((colour 0 + colour 1 + colour 2) / 3))\<rparr>"
  by (simp add: grayscale_def upt3)

lemma tf_max_flat:
  assumes "0 < h" "0 < w"
  shows "tf_max \<lparr>rows = h, cols = w, cell = (\<lambda>y x. Val L)\<rparr> = Val L"
  unfolding tf_max_def
  using Math_max_dataSync [of "\<lparr>rows = h, cols = w, cell = (\<lambda>y x. Val L)\<rparr>" "\<lambda>y x. L" 0 0] assms
  by simp

lemma normalized_flat:
  assumes "0 < h" "0 < w" "L \<noteq> 0"
  shows "normalized_luminance \<lparr>rows = h, cols = w, cell = (\<lambda>y x. Val L)\<rparr> =
           \<lparr>rows = h, cols = w, cell = (\<lambda>y x. Val 1)\<rparr>"
  using assms by (simp add: normalized_luminance_def tf_max_flat)

lemma normalized_black:
  assumes "0 < h" "0 < w"
  shows "normalized_luminance \<lparr>rows = h, cols = w, cell = (\<lambda>y x. Val 0)\<rparr> =
           \<lparr>rows = h, cols = w, cell = (\<lambda>y x. NaN)\<rparr>"
  using assms by (simp add: normalized_luminance_def tf_max_flat signed_inf_def)

lemma heatmap_flat:
  assumes "0 < h" "0 < w" "colour 0 + colour 1 + colour 2 \<noteq> 0" "confidenceBoost ps = Val bo"
  shows "heatmap_of \<lparr>height3 = h, width3 = w, channels3 = 3, at3 = (\<lambda>y x d. Val (colour d))\<rparr> ps =
           \<lparr>rows = h, cols = w, cell = (\<lambda>y x. Val (mask_weight h w y x * bo))\<rparr>"
  using assms
  by (simp add: heatmap_of_def Let_def grayscale_flat normalized_flat centerMask_def tf_mul_def)

lemma boost_positive:
  "\<exists>bo. confidenceBoost (map Val ps) = Val bo \<and> 0 < bo"
proof -
  have "(0::real) < (if ps = [] then 3 / 10 else max (3 / 10) (Max (set ps) * 2))"
    by (simp add: less_max_iff_disj)
  then show ?thesis using confidenceBoost_Val [of ps] by blast
qed

lemma normalizedHeatmap_mask:
  assumes "0 < bo" "y < 224" "x < 224"
  shows "cell (normalizedHeatmap \<lparr>rows = 224, cols = 224,
            cell = (\<lambda>y x. Val (mask_weight 224 224 y x * bo))\<rparr>) y x = Val (mask_weight 224 224 y x)"
proof -
  let ?hm = "\<lparr>rows = 224, cols = 224, cell = (\<lambda>y x. Val (mask_weight 224 224 y x * bo))\<rparr>"
  have mn: "Math_min (dataSync ?hm) = Val 0"
    using Math_min_dataSync [of ?hm "\<lambda>y x. mask_weight 224 224 y x * bo" 0 0] assms(1)
      mask_weight_range [of 224 224] by (simp add: mask_weight_corner)
  have mx: "Math_max (dataSync ?hm) = Val bo"
    using Math_max_dataSync [of ?hm "\<lambda>y x. mask_weight 224 224 y x * bo" 112 112] assms(1)
      mask_weight_range [of 224 224] by (simp add: mask_weight_centre)
  have rs: "cell (resizeBilinear2 ?hm 224 224) y x = Val (mask_weight 224 224 y x * bo)"
    using assms(2,3) by (simp add: resizeBilinear2_def resize_plane_same_Val)
  show ?thesis using assms(1)
    by (simp add: normalizedHeatmap_def Let_def mn mx strict_eq_def rs)
qed

lemma saliency_flat:
  assumes "colour 0 + colour 1 + colour 2 \<noteq> 0" "y < 224" "x < 224"
  shows "cell_of (saliency (flat_tensor 224 224 colour) (map Val ps)) y x =
           Some (Val (mask_weight 224 224 y x))"
proof -
  obtain bo where bo: "confidenceBoost (map Val ps) = Val bo" "0 < bo"
    using boost_positive by blast
  have "heatmap_of \<lparr>height3 = 224, width3 = 224, channels3 = 3, at3 = (\<lambda>y x d. Val (colour d))\<rparr>
          (map Val ps) = \<lparr>rows = 224, cols = 224, cell = (\<lambda>y x. Val (mask_weight 224 224 y x * bo))\<rparr>"
    using heatmap_flat [of 224 224 colour "map Val ps" bo] assms(1) bo(1) by simp
  then show ?thesis
    using normalizedHeatmap_mask [OF bo(2) assms(2,3)]
    by (simp add: cell_of_def saliency_def squeeze0_flat)
qed

lemma heatmap_black:
  assumes "0 < h" "0 < w" "colour 0 + colour 1 + colour 2 = 0"
  shows "heatmap_of \<lparr>height3 = h, width3 = w, channels3 = 3, at3 = (\<lambda>y x d. Val (colour d))\<rparr> ps =
           \<lparr>rows = h, cols = w, cell = (\<lambda>y x. NaN)\<rparr>"
  using assms
  by (simp add: heatmap_of_def Let_def grayscale_flat normalized_black centerMask_def tf_mul_def)

lemma normalizedHeatmap_NaN:
  assumes "y < 224" "x < 224"
  shows "cell (normalizedHeatmap \<lparr>rows = 224, cols = 224, cell = (\<lambda>y x. NaN)\<rparr>) y x = NaN"
proof -
  let ?hm = "\<lparr>rows = 224, cols = 224, cell = (\<lambda>y x. NaN)\<rparr>"
  have mx: "Math_max (dataSync ?hm) = NaN"
    using Math_max_dataSync_NaN [of 0 ?hm 0] by simp
  have rs: "cell (resizeBilinear2 ?hm 224 224) y x = NaN"
    using assms by (simp add: resizeBilinear2_def resize_plane_same_NaN)
  show ?thesis
    by (simp add: normalizedHeatmap_def Let_def mx strict_eq_def rs)
qed

lemma saliency_black:
  assumes "colour 0 + colour 1 + colour 2 = 0" "y < 224" "x < 224"
  shows "cell_of (saliency (flat_tensor 224 224 colour) ps) y x = Some NaN"
  using heatmap_black [of 224 224 colour ps] assms normalizedHeatmap_NaN [of y x]
  by (simp add: cell_of_def saliency_def squeeze0_flat)

lemma normalizedHeatmap_shape:
  "rows (normalizedHeatmap hm) = 224 \<and> cols (normalizedHeatmap hm) = 224"
  by (simp add: normalizedHeatmap_def Let_def fixed_pattern_def resizeBilinear2_def)

lemma saliency_shape:
  "map_option rows (saliency t ps) = (if batch t = 1 then Some 224 else None)
   \<and> map_option cols (saliency t ps) = (if batch t = 1 then Some 224 else None)"
  by (simp add: saliency_def squeeze0_def normalizedHeatmap_shape)

lemma saliency_flat_some:
  "\<exists>m. saliency (flat_tensor h w colour) ps = Some m \<and> rows m = 224 \<and> cols m = 224"
  by (simp add: saliency_def squeeze0_flat normalizedHeatmap_shape)

section \<open>The code resizes and scales as the specification scales and resizes\<close>

lemma lerp_Val: "lerp (Val a) (Val b) t = Val (a + (b - a) * t)"
  by (simp add: lerp_def)

lemma sourceFrac_less:
  assumes "0 < h" "y < n"
  shows "sourceFrac h n y < real h"
proof -
  have "real y / real n < 1" using assms(2) by simp
  then have "real h * (real y / real n) < real h * 1"
    using assms(1) by (simp only: mult_less_cancel_left_pos of_nat_0_less_iff)
  then show ?thesis by (simp add: sourceFrac_def)
qed

lemma sourceFloor_less:
  assumes "0 < h" "y < n"
  shows "sourceFloor h n y < h"
proof -
  have "\<lfloor>sourceFrac h n y\<rfloor> < int h"
    using sourceFrac_less [OF assms] by (simp add: floor_less_iff)
  then show ?thesis using assms(1) by (simp add: sourceFloor_def)
qed

lemma sourceCeil_less: "0 < h \<Longrightarrow> sourceCeil h n y < h"
  unfolding sourceCeil_def by (simp add: min_less_iff_disj)

lemma Math_min_grid_Val:
  assumes "\<And>y x. y < rows t \<Longrightarrow> x < cols t \<Longrightarrow> cell t y x = Val (f y x)" "0 < rows t" "0 < cols t"
  shows "\<exists>a. Math_min (dataSync t) = Val a"
proof -
  let ?xs = "concat (map (\<lambda>y. map (f y) [0..<cols t]) [0..<rows t])"
  have "f 0 0 \<in> set ?xs" using assms(2,3) by fastforce
  then have "?xs \<noteq> []" by auto
  then show ?thesis using dataSync_Val [of t f, OF assms(1)] Math_min_Val [of ?xs] by simp
qed

lemma Math_max_grid_Val:
  assumes "\<And>y x. y < rows t \<Longrightarrow> x < cols t \<Longrightarrow> cell t y x = Val (f y x)" "0 < rows t" "0 < cols t"
  shows "\<exists>b. Math_max (dataSync t) = Val b"
proof -
  let ?xs = "concat (map (\<lambda>y. map (f y) [0..<cols t]) [0..<rows t])"
  have "f 0 0 \<in> set ?xs" using assms(2,3) by fastforce
  then have "?xs \<noteq> []" by auto
  then show ?thesis using dataSync_Val [of t f, OF assms(1)] Math_max_Val [of ?xs] by simp
qed

lemma scale_lerp:
  fixes p q a k t :: real
  assumes "k \<noteq> 0"
  shows "(p + (q - p) * t - a) / k = (p - a) / k + ((q - a) / k - (p - a) / k) * t"
  using assms by (simp add: field_simps)

lemma scale_bilinear:
  fixes p q r s a k c t :: real
  assumes "k \<noteq> 0"
  shows "(p + (q - p) * c + ((r + (s - r) * c) - (p + (q - p) * c)) * t - a) / k =
         (p - a) / k + ((q - a) / k - (p - a) / k) * c
         + (((r - a) / k + ((s - a) / k - (r - a) / k) * c)
            - ((p - a) / k + ((q - a) / k - (p - a) / k) * c)) * t"
proof -
  have top: "(p - a) / k + ((q - a) / k - (p - a) / k) * c = (p + (q - p) * c - a) / k"
    by (rule scale_lerp [symmetric, OF assms])
  have bot: "(r - a) / k + ((s - a) / k - (r - a) / k) * c = (r + (s - r) * c - a) / k"
    by (rule scale_lerp [symmetric, OF assms])
  show ?thesis unfolding top bot by (rule scale_lerp [OF assms])
qed

lemma normalizedHeatmap_is_spec:
  assumes fin: "\<And>y x. y < rows hm \<Longrightarrow> x < cols hm \<Longrightarrow> cell hm y x = Val (f y x)"
    and pos: "0 < rows hm" "0 < cols hm"
    and rng: "\<not> strict_eq (sub (Math_max (dataSync hm)) (Math_min (dataSync hm))) (Val 0)"
    and yx: "y < 224" "x < 224"
  shows "cell (normalizedHeatmap hm) y x = cell (saliency_spec hm) y x"
proof -
  obtain a where a: "Math_min (dataSync hm) = Val a" using Math_min_grid_Val [OF fin pos] by blast
  obtain b where b: "Math_max (dataSync hm) = Val b" using Math_max_grid_Val [OF fin pos] by blast
  have k: "b - a \<noteq> 0" using rng by (simp add: a b strict_eq_def)
  let ?r0 = "sourceFloor (rows hm) 224 y" and ?r1 = "sourceCeil (rows hm) 224 y"
  let ?c0 = "sourceFloor (cols hm) 224 x" and ?c1 = "sourceCeil (cols hm) 224 x"
  have r0: "?r0 < rows hm" and r1: "?r1 < rows hm"
    using sourceFloor_less [OF pos(1) yx(1)] sourceCeil_less [OF pos(1)] by simp_all
  have c0: "?c0 < cols hm" and c1: "?c1 < cols hm"
    using sourceFloor_less [OF pos(2) yx(2)] sourceCeil_less [OF pos(2)] by simp_all
  have cells: "cell hm ?r0 ?c0 = Val (f ?r0 ?c0)" "cell hm ?r1 ?c0 = Val (f ?r1 ?c0)"
    "cell hm ?r0 ?c1 = Val (f ?r0 ?c1)" "cell hm ?r1 ?c1 = Val (f ?r1 ?c1)"
    using fin r0 r1 c0 c1 by simp_all
  have code: "cell (normalizedHeatmap hm) y x =
      Val ((f ?r0 ?c0 + (f ?r0 ?c1 - f ?r0 ?c0) * (sourceFrac (cols hm) 224 x - real ?c0)
            + ((f ?r1 ?c0 + (f ?r1 ?c1 - f ?r1 ?c0) * (sourceFrac (cols hm) 224 x - real ?c0))
               - (f ?r0 ?c0 + (f ?r0 ?c1 - f ?r0 ?c0) * (sourceFrac (cols hm) 224 x - real ?c0)))
              * (sourceFrac (rows hm) 224 y - real ?r0) - a) / (b - a))"
    using k
    by (simp add: normalizedHeatmap_def Let_def a b strict_eq_def resizeBilinear2_def
        resizeBilinear_plane_def cells lerp_Val)
  have spec: "cell (saliency_spec hm) y x =
      Val ((f ?r0 ?c0 - a) / (b - a)
            + ((f ?r0 ?c1 - a) / (b - a) - (f ?r0 ?c0 - a) / (b - a))
              * (sourceFrac (cols hm) 224 x - real ?c0)
            + (((f ?r1 ?c0 - a) / (b - a)
                + ((f ?r1 ?c1 - a) / (b - a) - (f ?r1 ?c0 - a) / (b - a))
                  * (sourceFrac (cols hm) 224 x - real ?c0))
               - ((f ?r0 ?c0 - a) / (b - a)
                  + ((f ?r0 ?c1 - a) / (b - a) - (f ?r0 ?c0 - a) / (b - a))
                    * (sourceFrac (cols hm) 224 x - real ?c0)))
              * (sourceFrac (rows hm) 224 y - real ?r0))"
    using k
    by (simp add: saliency_spec_def normalize_spec_def Let_def a b resizeBilinear2_def
        resizeBilinear_plane_def cells lerp_Val)
  show ?thesis unfolding code spec
    by (rule arg_cong [where f = Val], rule scale_bilinear [OF k])
qed

section \<open>The Gaussian mask and the heat map of the reworked component\<close>

lemma mask_weight2_is_gaussian: "mask_weight2 h w y x = gaussian_weight_spec h w y x"
  by (simp add: mask_weight2_def gaussian_weight_spec_def Let_def)

lemma distance_sq: "(distance_to cy cx y x)\<^sup>2 = (real y - real cy)\<^sup>2 + (real x - real cx)\<^sup>2"
  by (simp add: distance_to_def)

lemma coord_sq_bound: "y < h \<Longrightarrow> (real y - real (h div 2))\<^sup>2 \<le> (real (h div 2))\<^sup>2"
proof -
  assume "y < h"
  then have "y \<le> 2 * (h div 2)" by linarith
  then have "real y \<le> 2 * real (h div 2)" by (metis of_nat_le_iff of_nat_mult of_nat_numeral)
  then have "\<bar>real y - real (h div 2)\<bar> \<le> real (h div 2)" by (simp add: abs_le_iff)
  then show ?thesis by (simp only: abs_le_square_iff [symmetric] abs_of_nat)
qed

lemma gaussian_centre: "gaussian_weight_spec h w (h div 2) (w div 2) = 1"
  by (simp add: gaussian_weight_spec_def distance_to_def)

lemma gaussian_le_1: "gaussian_weight_spec h w y x \<le> 1"
  by (simp add: gaussian_weight_spec_def)

lemma gaussian_corner_least:
  assumes "y < h" "x < w"
  shows "gaussian_weight_spec h w 0 0 \<le> gaussian_weight_spec h w y x"
proof -
  have "(distance_to (h div 2) (w div 2) y x)\<^sup>2 \<le> (distance_to (h div 2) (w div 2) 0 0)\<^sup>2"
    using coord_sq_bound [OF assms(1)] coord_sq_bound [OF assms(2)] by (simp add: distance_sq)
  then show ?thesis
    by (simp add: gaussian_weight_spec_def divide_right_mono)
qed

lemma gaussian_corner_less_1:
  assumes "2 \<le> h" "2 \<le> w"
  shows "gaussian_weight_spec h w 0 0 < 1"
proof -
  have "0 < h div 2" using assms(1) by simp
  then have "0 < (real (h div 2))\<^sup>2" by simp
  then have d: "0 < (distance_to (h div 2) (w div 2) 0 0)\<^sup>2"
    by (simp add: distance_sq add_pos_nonneg)
  have "0 < min h w" using assms by simp
  then have r: "0 < 2 * (real (min h w) / 3 / 2)\<^sup>2" by simp
  have "0 < (distance_to (h div 2) (w div 2) 0 0)\<^sup>2 / (2 * (real (min h w) / 3 / 2)\<^sup>2)"
    using d r by (rule divide_pos_pos)
  then show ?thesis by (simp add: gaussian_weight_spec_def)
qed

lemma boost2_positive:
  "\<exists>bo. confidenceBoost2 (map Val ps) = Val bo \<and> 0 < bo"
proof -
  have "(0::real) < (if ps = [] then 3 / 10 else clamp_spec (Max (set ps) * 2) (3 / 10) 1)"
    by (simp add: clamp_spec_def less_max_iff_disj)
  then show ?thesis using confidenceBoost2_Val [of ps] by blast
qed

lemma heatmap2_flat:
  assumes "0 < h" "0 < w" "colour 0 + colour 1 + colour 2 \<noteq> 0" "confidenceBoost2 ps = Val bo"
  shows "heatmap_of2 \<lparr>height3 = h, width3 = w, channels3 = 3, at3 = (\<lambda>y x d. Val (colour d))\<rparr> ps =
           \<lparr>rows = h, cols = w, cell = (\<lambda>y x. Val (gaussian_weight_spec h w y x * bo))\<rparr>"
  using assms
  by (simp add: heatmap_of2_def Let_def grayscale_flat normalized_flat centerMask2_def tf_mul_def
      mask_weight2_is_gaussian)

lemma gaussian_map_min:
  assumes "0 < bo" "0 < h" "0 < w"
  shows "Math_min (dataSync \<lparr>rows = h, cols = w,
            cell = (\<lambda>y x. Val (gaussian_weight_spec h w y x * bo))\<rparr>) =
         Val (gaussian_weight_spec h w 0 0 * bo)"
  using Math_min_dataSync [of "\<lparr>rows = h, cols = w,
            cell = (\<lambda>y x. Val (gaussian_weight_spec h w y x * bo))\<rparr>"
          "\<lambda>y x. gaussian_weight_spec h w y x * bo" 0 0] assms gaussian_corner_least [of _ h _ w]
  by simp

lemma gaussian_map_max:
  assumes "0 < bo" "0 < h" "0 < w"
  shows "Math_max (dataSync \<lparr>rows = h, cols = w,
            cell = (\<lambda>y x. Val (gaussian_weight_spec h w y x * bo))\<rparr>) = Val bo"
  using Math_max_dataSync [of "\<lparr>rows = h, cols = w,
            cell = (\<lambda>y x. Val (gaussian_weight_spec h w y x * bo))\<rparr>"
          "\<lambda>y x. gaussian_weight_spec h w y x * bo" "h div 2" "w div 2"] assms
        gaussian_le_1 [of h w]
  by (simp add: gaussian_centre)

lemma gaussian_map_range:
  assumes "0 < bo" "2 \<le> h" "2 \<le> w"
  shows "\<not> strict_eq (sub (Math_max (dataSync \<lparr>rows = h, cols = w,
            cell = (\<lambda>y x. Val (gaussian_weight_spec h w y x * bo))\<rparr>))
          (Math_min (dataSync \<lparr>rows = h, cols = w,
            cell = (\<lambda>y x. Val (gaussian_weight_spec h w y x * bo))\<rparr>))) (Val 0)"
proof -
  have "bo - gaussian_weight_spec h w 0 0 * bo \<noteq> 0"
    using assms(1) gaussian_corner_less_1 [OF assms(2,3)] by (simp add: algebra_simps)
  then show ?thesis using assms by (simp add: gaussian_map_min gaussian_map_max strict_eq_def)
qed

lemma length_dataSync: "length (dataSync t) = rows t * cols t"
  by (simp add: dataSync_def length_concat comp_def sum_list_triv)

lemma heatmap_of2_shape:
  "rows (heatmap_of2 sq ps) = height3 sq \<and> cols (heatmap_of2 sq ps) = width3 sq"
  by (simp add: heatmap_of2_def Let_def tf_mul_def normalized_luminance_def grayscale_def)

lemma heatmap_of_shape:
  "rows (heatmap_of sq ps) = height3 sq \<and> cols (heatmap_of sq ps) = width3 sq"
  by (simp add: heatmap_of_def Let_def tf_mul_def normalized_luminance_def grayscale_def)

lemma squeeze0_batch1: "batch t = 1 \<Longrightarrow> squeeze0 t = Some (squeezed_of t)"
  by (simp add: squeeze0_def squeezed_of_def)

lemma saliency2_ok:
  assumes "batch t = 1" "ps \<noteq> []" "length ps \<le> maxArgs" "height t * width t \<le> maxArgs"
  shows "saliency2 maxArgs t ps = Inr (normalizedHeatmap (heatmap_of2 (squeezed_of t) ps))"
  using assms
  by (simp add: saliency2_def squeeze0_batch1 spread_fits_def Let_def length_dataSync
      heatmap_of2_shape squeezed_of_def)

lemma squeezed_of_flat:
  "squeezed_of (flat_tensor h w colour) =
     \<lparr>height3 = h, width3 = w, channels3 = 3, at3 = (\<lambda>y x d. Val (colour d))\<rparr>"
  by (simp add: squeezed_of_def flat_tensor_def)

lemma normalizedHeatmap_gaussian:
  assumes "0 < bo" "y < 224" "x < 224"
  shows "cell (normalizedHeatmap \<lparr>rows = 224, cols = 224,
            cell = (\<lambda>y x. Val (gaussian_weight_spec 224 224 y x * bo))\<rparr>) y x =
         Val ((gaussian_weight_spec 224 224 y x - gaussian_weight_spec 224 224 0 0)
              / (1 - gaussian_weight_spec 224 224 0 0))"
proof -
  let ?G = "gaussian_weight_spec 224 224"
  let ?hm = "\<lparr>rows = 224, cols = 224, cell = (\<lambda>y x. Val (?G y x * bo))\<rparr>"
  have mn: "Math_min (dataSync ?hm) = Val (?G 0 0 * bo)"
    using gaussian_map_min [OF assms(1), of 224 224] by simp
  have mx: "Math_max (dataSync ?hm) = Val bo"
    using gaussian_map_max [OF assms(1), of 224 224] by simp
  have rs: "cell (resizeBilinear2 ?hm 224 224) y x = Val (?G y x * bo)"
    using assms(2,3) by (simp add: resizeBilinear2_def resize_plane_same_Val)
  have ne: "bo - ?G 0 0 * bo \<noteq> 0"
    using assms(1) gaussian_corner_less_1 [of 224 224] by (simp add: algebra_simps)
  have "(?G y x * bo - ?G 0 0 * bo) / (bo - ?G 0 0 * bo) = (?G y x - ?G 0 0) / (1 - ?G 0 0)"
  proof -
    have "(?G y x * bo - ?G 0 0 * bo) / (bo - ?G 0 0 * bo)
          = ((?G y x - ?G 0 0) * bo) / ((1 - ?G 0 0) * bo)"
      by (simp add: algebra_simps)
    also have "\<dots> = (?G y x - ?G 0 0) / (1 - ?G 0 0)"
      using assms(1) by simp
    finally show ?thesis .
  qed
  then show ?thesis using ne
    by (simp add: normalizedHeatmap_def Let_def mn mx strict_eq_def rs)
qed

lemma saliency2_flat:
  assumes "colour 0 + colour 1 + colour 2 \<noteq> 0" "y < 224" "x < 224" "ps \<noteq> []"
    "length ps \<le> maxArgs" "50176 \<le> maxArgs"
  shows "cell_in (saliency2 maxArgs (flat_tensor 224 224 colour) (map Val ps)) y x =
           Inr (Val ((gaussian_weight_spec 224 224 y x - gaussian_weight_spec 224 224 0 0)
                      / (1 - gaussian_weight_spec 224 224 0 0)))"
proof -
  obtain bo where bo: "confidenceBoost2 (map Val ps) = Val bo" "0 < bo"
    using boost2_positive by blast
  have hm: "heatmap_of2 (squeezed_of (flat_tensor 224 224 colour)) (map Val ps) =
        \<lparr>rows = 224, cols = 224, cell = (\<lambda>y x. Val (gaussian_weight_spec 224 224 y x * bo))\<rparr>"
    using heatmap2_flat [of 224 224 colour "map Val ps" bo] assms(1) bo(1)
    by (simp add: squeezed_of_flat)
  have "saliency2 maxArgs (flat_tensor 224 224 colour) (map Val ps) =
          Inr (normalizedHeatmap (heatmap_of2 (squeezed_of (flat_tensor 224 224 colour)) (map Val ps)))"
    using assms(4,5,6) by (intro saliency2_ok) (simp_all add: flat_tensor_def)
  then show ?thesis
    using normalizedHeatmap_gaussian [OF bo(2) assms(2,3)] by (simp add: cell_in_def hm)
qed

section \<open>Colours and reported scores of the reworked component\<close>










lemma label_of2_small: "i < 3 \<Longrightarrow> label_of2 i = JANKEN_LABELS ! i"
  by (simp add: label_of2_def JANKEN_LABELS_def)

lemma results2_mset:
  "mset (prediction_results2 d) =
     mset (map (\<lambda>i. \<lparr>label = JANKEN_LABELS ! i, confidence = max 0 (min 1 (d ! i))\<rparr>)
            [0..<min 3 (length d)])"
proof -
  have "map (\<lambda>(index, c). \<lparr>label = label_of2 index, confidence = max 0 (min 1 c)\<rparr>)
          (enumerate 0 (take 3 d))
        = map (\<lambda>i. \<lparr>label = JANKEN_LABELS ! i, confidence = max 0 (min 1 (d ! i))\<rparr>)
            [0..<min 3 (length d)]"
    by (simp add: enumerate_take_map label_of2_small)
  moreover have "length JANKEN_LABELS = 3" by (simp add: JANKEN_LABELS_def)
  ultimately show ?thesis unfolding prediction_results2_def by (simp only: mset_sort)
qed

lemma results2_range:
  "p \<in> set (prediction_results2 d) \<Longrightarrow> 0 \<le> confidence p \<and> confidence p \<le> 1"
  by (auto simp: prediction_results2_def)

lemma confidenceBoost2_of_clamped:
  "confidenceBoost2 (map Val ps) = confidenceBoost2 (map Val (map (\<lambda>c. max 0 (min 1 c)) ps))"
proof (cases "ps = []")
  case True
  then show ?thesis by simp
next
  case False
  define qs where "qs = map (\<lambda>c::real. max 0 (min 1 c)) ps"
  have mono: "mono (\<lambda>c::real. max 0 (min 1 c))" by (rule monoI) (auto simp: max_def min_def)
  have ne: "qs \<noteq> []" using False by (simp add: qs_def)
  have "Max (set qs) = max 0 (min 1 (Max (set ps)))"
    using mono_Max_commute [OF mono, of "set ps"] False by (simp add: qs_def)
  then have "clamp_spec (Max (set qs) * 2) (3 / 10) 1 = clamp_spec (Max (set ps) * 2) (3 / 10) 1"
    by (simp add: clamp_spec_def max_def min_def)
  then have "confidenceBoost2 (map Val ps) = confidenceBoost2 (map Val qs)"
    using False ne by (simp only: confidenceBoost2_Val if_False)
  then show ?thesis by (simp only: qs_def)
qed

section \<open>Inputs of other sizes\<close>

lemma saliency2_is_spec:
  assumes "batch t = 1" "0 < height t" "0 < width t" "ps \<noteq> []"
    "length ps \<le> maxArgs" "height t * width t \<le> maxArgs"
    and fin: "\<And>y x. y < height t \<Longrightarrow> x < width t \<Longrightarrow>
                cell (heatmap_of2 (squeezed_of t) ps) y x = Val (f y x)"
    and rng: "\<not> strict_eq (sub (Math_max (dataSync (heatmap_of2 (squeezed_of t) ps)))
                (Math_min (dataSync (heatmap_of2 (squeezed_of t) ps)))) (Val 0)"
    and yx: "y < 224" "x < 224"
  shows "\<exists>m. saliency2 maxArgs t ps = Inr m \<and> rows m = 224 \<and> cols m = 224
           \<and> cell m y x = cell (saliency_spec (heatmap_of2 (squeezed_of t) ps)) y x"
proof -
  let ?raw = "heatmap_of2 (squeezed_of t) ps"
  have shape: "rows ?raw = height t" "cols ?raw = width t"
    by (simp_all add: heatmap_of2_shape squeezed_of_def)
  have "cell (normalizedHeatmap ?raw) y x = cell (saliency_spec ?raw) y x"
    by (rule normalizedHeatmap_is_spec [where f = f])
       (simp_all add: shape fin assms(2,3) rng yx)
  then show ?thesis
    using saliency2_ok [OF assms(1,4,5,6)] by (simp add: normalizedHeatmap_shape)
qed

lemma saliency_ok:
  "batch t = 1 \<Longrightarrow> saliency t ps = Some (normalizedHeatmap (heatmap_of (squeezed_of t) ps))"
  by (simp add: saliency_def squeeze0_batch1)

lemma saliency_is_spec:
  assumes "batch t = 1" "0 < height t" "0 < width t"
    and fin: "\<And>y x. y < height t \<Longrightarrow> x < width t \<Longrightarrow>
                cell (heatmap_of (squeezed_of t) ps) y x = Val (f y x)"
    and rng: "\<not> strict_eq (sub (Math_max (dataSync (heatmap_of (squeezed_of t) ps)))
                (Math_min (dataSync (heatmap_of (squeezed_of t) ps)))) (Val 0)"
    and yx: "y < 224" "x < 224"
  shows "\<exists>m. saliency t ps = Some m \<and> rows m = 224 \<and> cols m = 224
           \<and> cell m y x = cell (saliency_spec (heatmap_of (squeezed_of t) ps)) y x"
proof -
  let ?raw = "heatmap_of (squeezed_of t) ps"
  have shape: "rows ?raw = height t" "cols ?raw = width t"
    by (simp_all add: heatmap_of_shape squeezed_of_def)
  have "cell (normalizedHeatmap ?raw) y x = cell (saliency_spec ?raw) y x"
    by (rule normalizedHeatmap_is_spec [where f = f])
       (simp_all add: shape fin assms(2,3) rng yx)
  then show ?thesis
    using saliency_ok [OF assms(1)] by (simp add: normalizedHeatmap_shape)
qed

lemma generateGradCAM_ok:
  assumes "batch t = 1" "length ps \<le> maxArgs" "height t * width t \<le> maxArgs"
  shows "generateGradCAM maxArgs t ps =
           map_option (\<lambda>values. \<lparr>im_width = 224, im_height = 224,
              rgba_at = (\<lambda>i. heatmapPixel (cell values (i div 224) (i mod 224)))\<rparr>)
             (saliency t ps)"
  using assms
  by (simp add: generateGradCAM_def saliency_def squeeze0_batch1 spread_fits_def Let_def
      length_dataSync heatmap_of_shape squeezed_of_def)

lemma generateGradCAM_RangeError:
  assumes "batch t = 1" "maxArgs < height t * width t"
  shows "generateGradCAM maxArgs t ps = None"
  using assms
  by (simp add: generateGradCAM_def squeeze0_batch1 spread_fits_def Let_def
      length_dataSync heatmap_of_shape squeezed_of_def)

lemma raw2_flat:
  assumes "0 < h" "0 < w" "colour 0 + colour 1 + colour 2 \<noteq> 0" "confidenceBoost2 ps = Val bo"
  shows "heatmap_of2 (squeezed_of (flat_tensor h w colour)) ps =
           \<lparr>rows = h, cols = w, cell = (\<lambda>y x. Val (gaussian_weight_spec h w y x * bo))\<rparr>"
  using heatmap2_flat [OF assms] by (simp add: squeezed_of_flat)

lemma sourceFrac_100: "sourceFrac 100 224 112 = 50 \<and> sourceFrac 100 224 0 = 0"
  by (simp add: sourceFrac_def)

lemma resize_100_centre:
  "resizeBilinear_plane 100 100 (\<lambda>y x. Val (f y x)) 224 224 112 112 = Val (f 50 50)"
  by (simp add: resizeBilinear_plane_def Let_def sourceFloor_def sourceCeil_def sourceFrac_100
      lerp_Val)

lemma resize_100_corner:
  "resizeBilinear_plane 100 100 (\<lambda>y x. Val (f y x)) 224 224 0 0 = Val (f 0 0)"
  by (simp add: resizeBilinear_plane_def Let_def sourceFloor_def sourceCeil_def sourceFrac_100
      lerp_Val)

lemma saliency2_flat_100:
  assumes "colour 0 + colour 1 + colour 2 \<noteq> 0" "ps \<noteq> []" "length ps \<le> maxArgs" "10000 \<le> maxArgs"
  shows "cell_in (saliency2 maxArgs (flat_tensor 100 100 colour) (map Val ps)) 112 112 = Inr (Val 1)
       \<and> cell_in (saliency2 maxArgs (flat_tensor 100 100 colour) (map Val ps)) 0 0 = Inr (Val 0)"
proof -
  let ?G = "gaussian_weight_spec 100 100"
  obtain bo where bo: "confidenceBoost2 (map Val ps) = Val bo" "0 < bo"
    using boost2_positive by blast
  let ?hm = "\<lparr>rows = 100, cols = 100, cell = (\<lambda>y x. Val (?G y x * bo))\<rparr>"
  have hm: "heatmap_of2 (squeezed_of (flat_tensor 100 100 colour)) (map Val ps) = ?hm"
    using raw2_flat [of 100 100 colour "map Val ps" bo] assms(1) bo(1) by simp
  have "saliency2 maxArgs (flat_tensor 100 100 colour) (map Val ps) =
          Inr (normalizedHeatmap (heatmap_of2 (squeezed_of (flat_tensor 100 100 colour)) (map Val ps)))"
    using assms(2,3,4) by (intro saliency2_ok) (simp_all add: flat_tensor_def)
  then have sal: "saliency2 maxArgs (flat_tensor 100 100 colour) (map Val ps) =
          Inr (normalizedHeatmap ?hm)"
    by (simp only: hm)
  have mn: "Math_min (dataSync ?hm) = Val (?G 0 0 * bo)"
    using gaussian_map_min [OF bo(2), of 100 100] by simp
  have mx: "Math_max (dataSync ?hm) = Val bo"
    using gaussian_map_max [OF bo(2), of 100 100] by simp
  have ne: "bo - ?G 0 0 * bo \<noteq> 0"
    using bo(2) gaussian_corner_less_1 [of 100 100] by (simp add: algebra_simps)
  have c: "?G 50 50 = 1" using gaussian_centre [of 100 100] by simp
  have "cell (normalizedHeatmap ?hm) 112 112 = Val 1"
    using ne by (simp add: normalizedHeatmap_def Let_def mn mx strict_eq_def resizeBilinear2_def
        resize_100_centre c)
  moreover have "cell (normalizedHeatmap ?hm) 0 0 = Val 0"
    using ne by (simp add: normalizedHeatmap_def Let_def mn mx strict_eq_def resizeBilinear2_def
        resize_100_corner)
  ultimately show ?thesis by (simp add: sal cell_in_def)
qed

section \<open>The range of the heat map of an image of one colour\<close>

lemma distance_112_32: "distance_to 112 112 112 32 = 80"
  unfolding distance_to_def by (rule real_sqrt_unique) simp_all

lemma gaussian_112_32: "gaussian_weight_spec 224 224 0 0 < gaussian_weight_spec 224 224 112 32"
  by (simp add: gaussian_weight_spec_def distance_sq divide_strict_right_mono)

lemma mask_map_range:
  assumes "0 < bo"
  shows "\<not> strict_eq (sub (Math_max (dataSync \<lparr>rows = 224, cols = 224,
              cell = (\<lambda>y x. Val (mask_weight 224 224 y x * bo))\<rparr>))
            (Math_min (dataSync \<lparr>rows = 224, cols = 224,
              cell = (\<lambda>y x. Val (mask_weight 224 224 y x * bo))\<rparr>))) (Val 0)"
proof -
  let ?hm = "\<lparr>rows = 224, cols = 224, cell = (\<lambda>y x. Val (mask_weight 224 224 y x * bo))\<rparr>"
  have mn: "Math_min (dataSync ?hm) = Val 0"
    using Math_min_dataSync [of ?hm "\<lambda>y x. mask_weight 224 224 y x * bo" 0 0] assms
      mask_weight_range [of 224 224] by (simp add: mask_weight_corner)
  have mx: "Math_max (dataSync ?hm) = Val bo"
    using Math_max_dataSync [of ?hm "\<lambda>y x. mask_weight 224 224 y x * bo" 112 112] assms
      mask_weight_range [of 224 224] by (simp add: mask_weight_centre)
  show ?thesis using assms by (simp add: mn mx strict_eq_def)
qed

lemma raw_flat:
  assumes "0 < h" "0 < w" "colour 0 + colour 1 + colour 2 \<noteq> 0" "confidenceBoost ps = Val bo"
  shows "heatmap_of (squeezed_of (flat_tensor h w colour)) ps =
           \<lparr>rows = h, cols = w, cell = (\<lambda>y x. Val (mask_weight h w y x * bo))\<rparr>"
  using heatmap_flat [OF assms] by (simp add: squeezed_of_flat)

lemma flat_range_nonzero:
  assumes "colour 0 + colour 1 + colour 2 \<noteq> 0"
  shows "\<not> strict_eq (sub (Math_max (dataSync (heatmap_of (squeezed_of (flat_tensor 224 224 colour)) (map Val ps))))
            (Math_min (dataSync (heatmap_of (squeezed_of (flat_tensor 224 224 colour)) (map Val ps))))) (Val 0)"
proof -
  obtain bo where bo: "confidenceBoost (map Val ps) = Val bo" "0 < bo"
    using boost_positive by blast
  show ?thesis
    using raw_flat [of 224 224 colour "map Val ps" bo] assms bo mask_map_range [OF bo(2)] by simp
qed

lemma flat_range_nonzero2:
  assumes "colour 0 + colour 1 + colour 2 \<noteq> 0" "2 \<le> h" "2 \<le> w"
  shows "\<not> strict_eq (sub (Math_max (dataSync (heatmap_of2 (squeezed_of (flat_tensor h w colour)) (map Val ps))))
            (Math_min (dataSync (heatmap_of2 (squeezed_of (flat_tensor h w colour)) (map Val ps))))) (Val 0)"
proof -
  obtain bo where bo: "confidenceBoost2 (map Val ps) = Val bo" "0 < bo"
    using boost2_positive by blast
  show ?thesis
    using raw2_flat [of h w colour "map Val ps" bo] assms bo gaussian_map_range [OF bo(2) assms(2,3)]
    by simp
qed

section \<open>The two components on a solid image\<close>

lemma saliency2_centre_above_corner:
  assumes "g \<noteq> 0" "ps \<noteq> []" "length ps \<le> maxArgs" "50176 \<le> maxArgs"
  shows "cell_in (saliency2 maxArgs (preprocessImage (solid_image 300 300 g)) (map Val ps)) 112 112
           = Inr (Val 1)
       \<and> cell_in (saliency2 maxArgs (preprocessImage (solid_image 300 300 g)) (map Val ps)) 0 0
           = Inr (Val 0)"
proof -
  let ?colour = "grey (real (unat g) / 255)"
  have "0 < unat g" using assms(1) by (simp add: unat_gt_0)
  then have "0 < real (unat g)" by (simp only: of_nat_0_less_iff)
  then have nz: "?colour 0 + ?colour 1 + ?colour 2 \<noteq> 0" by (simp add: grey_def)
  have c: "gaussian_weight_spec 224 224 112 112 = 1" using gaussian_centre [of 224 224] by simp
  have "1 - gaussian_weight_spec 224 224 0 0 \<noteq> 0" using gaussian_corner_less_1 [of 224 224] by simp
  then show ?thesis
    using saliency2_flat [OF nz _ _ assms(2,3,4), of 112 112]
      saliency2_flat [OF nz _ _ assms(2,3,4), of 0 0]
    by (simp add: preprocess_solid c)
qed

lemma saliency2_black:
  assumes "colour 0 + colour 1 + colour 2 = 0" "y < 224" "x < 224" "ps \<noteq> []"
    "length ps \<le> maxArgs" "50176 \<le> maxArgs"
  shows "cell_in (saliency2 maxArgs (flat_tensor 224 224 colour) ps) y x = Inr NaN"
proof -
  have hm: "heatmap_of2 (squeezed_of (flat_tensor 224 224 colour)) ps =
           \<lparr>rows = 224, cols = 224, cell = (\<lambda>y x. NaN)\<rparr>"
    using assms(1)
    by (simp add: squeezed_of_flat heatmap_of2_def Let_def grayscale_flat normalized_black
        centerMask2_def tf_mul_def)
  have "saliency2 maxArgs (flat_tensor 224 224 colour) ps =
          Inr (normalizedHeatmap (heatmap_of2 (squeezed_of (flat_tensor 224 224 colour)) ps))"
    using assms(4,5,6) by (intro saliency2_ok) (simp_all add: flat_tensor_def)
  then show ?thesis using assms(2,3) normalizedHeatmap_NaN [of y x]
    by (simp add: cell_in_def hm)
qed

lemma results2_first_three_sorted:
  "length (prediction_results2 d) \<le> 3
   \<and> sorted_wrt (\<lambda>a b. confidence b \<le> confidence a) (prediction_results2 d)"
proof -
  have "sorted (map (\<lambda>p. - confidence p) (prediction_results2 d))"
    unfolding prediction_results2_def by (rule sorted_sort_key)
  then show ?thesis by (simp add: sorted_map prediction_results2_def JANKEN_LABELS_def)
qed

section \<open>Where src/App.tsx differs from the reworked component\<close>

text \<open>
  The older copy has no ceiling on the boost, a linear mask, other colour constants with
  a constant alpha, no test for an empty score vector, and it reports the scores as they
  come.
\<close>

lemma App_tsx_boost_has_no_ceiling:
  "confidenceBoost [Val (9 / 10), Val (1 / 20), Val (1 / 20)] = Val (9 / 5)
   \<and> confidenceBoost [Val (3 / 5)] = Val (6 / 5)
   \<and> confidenceBoost [Val 0] = Val (3 / 10)"
  by (simp add: confidenceBoost_def Math_max_def)

lemma App_tsx_mask_is_linear:
  "cell (centerMask 224 224 (Val b)) 0 0 = Val 0 \<and> 0 < gaussian_weight_spec 224 224 0 0"
  by (simp add: centerMask_def mask_weight_corner gaussian_weight_spec_def)

lemma App_tsx_pixel_of_zero:
  "heatmapPixel (Val 0) = \<lparr>red = 0, green = 0, blue = 204, alpha = 200\<rparr>
   \<and> heatmapPixel2 (Val 0) = \<lparr>red = 0, green = 0, blue = 230, alpha = 115\<rparr>"
  by (simp add: heatmapPixel_def heatmapPixel2_def clipByValue_def toUint8Clamped_def
      round_half_even_def)

lemma App_tsx_accepts_empty_vector:
  "confidenceBoost [] = Val (3 / 10)
   \<and> cell_of (saliency (flat_tensor 224 224 (grey (1 / 2))) []) 112 112 = Some (Val 1)"
proof -
  have "cell_of (saliency (flat_tensor 224 224 (grey (1 / 2))) (map Val [])) 112 112 = Some (Val 1)"
    using saliency_flat [of "grey (1 / 2)" 112 112 "[]"]
    by (simp add: grey_def mask_weight_centre)
  moreover have "confidenceBoost [] = Val (3 / 10)"
    using confidenceBoost_Val [of "[]"] by simp
  ultimately show ?thesis by simp
qed

lemma App_tsx_scores_not_clamped:
  "map confidence (prediction_results [3 / 2, 1 / 5, 1 / 10]) = [3 / 2, 1 / 5, 1 / 10]
   \<and> confidenceBoost [Val (3 / 2), Val (1 / 5), Val (1 / 10)] = Val 3"
  by (simp add: prediction_results_def enumerate_eq_zip label_of_def JANKEN_LABELS_def upt_rec
      confidenceBoost_def Math_max_def)

section \<open>The claims\<close>

text \<open>
  Where the two components differ, a claim is settled on the reworked component, whose
  formulas are those of the specification; the lemmas of the section before say what the
  older copy does. Where they agree, the theorem is about the functions of
  \<^verbatim>\<open>src/App.tsx\<close> and a lemma says the same of the reworked component.
\<close>

subsection \<open>The boost factor\<close>

text \<open>
  C1. For every non-empty vector of finite scores the boost is the greatest score times
  two, clamped between 0.3 and 1.0. A greatest score of 0 gives 0.3, of 0.6 gives 1.0 and
  of 0.9 gives 1.0.
\<close>

theorem C1_boost_is_clamp:
  assumes "ps \<noteq> []"
  shows "confidenceBoost2 (map Val ps) = Val (clamp_spec (Max (set ps) * 2) (3 / 10) 1)
         \<and> confidenceBoost2 [Val 0] = Val (3 / 10)
         \<and> confidenceBoost2 [Val (3 / 5)] = Val 1
         \<and> confidenceBoost2 [Val (9 / 10)] = Val 1"
proof -
  have "confidenceBoost2 (map Val ps) = Val (clamp_spec (Max (set ps) * 2) (3 / 10) 1)"
    using assms confidenceBoost2_Val [of ps] by simp
  moreover have "confidenceBoost2 [Val 0] = Val (3 / 10) \<and> confidenceBoost2 [Val (3 / 5)] = Val 1
         \<and> confidenceBoost2 [Val (9 / 10)] = Val 1"
    by (simp add: confidenceBoost2_def Math_max_def)
  ultimately show ?thesis by simp
qed

theorem C1_boost_is_clamp_witness:
  "[9 / 10, 1 / 20, 1 / 20 :: real] \<noteq> []
   \<and> confidenceBoost2 (map Val [9 / 10, 1 / 20, 1 / 20]) = Val 1
   \<and> clamp_spec (Max (set [9 / 10, 1 / 20, 1 / 20]) * 2) (3 / 10) 1 = 1"
  using C1_boost_is_clamp [of "[9 / 10, 1 / 20, 1 / 20]"] by (simp add: clamp_spec_def)

subsection \<open>The radial mask\<close>

text \<open>
  C2. The mask has the size of the luminance map. Its weight at a coordinate is
  exp(-distance^2 / (2 (r / 2)^2)) times the boost, where the distance is the Euclidean
  distance to the centre (floor(height / 2), floor(width / 2)) and
  r = min(height, width) / 3.
\<close>

theorem C2_mask_is_gaussian:
  "rows (centerMask2 h w boost) = h \<and> cols (centerMask2 h w boost) = w
   \<and> cell (centerMask2 h w boost) y x =
       mul (Val (exp (- ((distance_to (h div 2) (w div 2) y x)\<^sup>2)
                       / (2 * ((real (min h w) / 3) / 2)\<^sup>2)))) boost
   \<and> cell (centerMask2 h w (Val b)) y x = Val (gaussian_weight_spec h w y x * b)
   \<and> distance_to (h div 2) (w div 2) y x =
       sqrt ((real y - real (h div 2))\<^sup>2 + (real x - real (w div 2))\<^sup>2)"
proof -
  have shape: "rows (centerMask2 h w boost) = h \<and> cols (centerMask2 h w boost) = w"
    by (simp add: centerMask2_def)
  have mw: "mask_weight2 h w y x =
      exp (- ((distance_to (h div 2) (w div 2) y x)\<^sup>2) / (2 * ((real (min h w) / 3) / 2)\<^sup>2))"
    unfolding mask_weight2_def Let_def by (rule refl)
  have c: "cell (centerMask2 h w boost) y x = mul (Val (mask_weight2 h w y x)) boost"
    by (simp add: centerMask2_def)
  have g: "cell (centerMask2 h w (Val b)) y x = Val (gaussian_weight_spec h w y x * b)"
    by (simp add: centerMask2_def mask_weight2_is_gaussian)
  have d: "distance_to (h div 2) (w div 2) y x =
       sqrt ((real y - real (h div 2))\<^sup>2 + (real x - real (w div 2))\<^sup>2)"
    unfolding distance_to_def by (rule refl)
  show ?thesis using shape c [unfolded mw] g d by blast
qed

subsection \<open>An image of one colour\<close>

text \<open>
  C3, as stated: for every image of one colour the map is the fallback map
  max(0, 1 - distance / falloff_radius), whatever the probabilities. It fails for a
  mid-grey tensor with the scores 0.9, 0.05, 0.05. In the reworked component the map is
  positive at row 112, column 32, which is 80 cells from the centre, where the fallback
  map (the fixed pattern of the code, and the formula of the specification) is 0. In
  \<^verbatim>\<open>src/App.tsx\<close> the map is 0 at row 112, column 36, where the fallback map is
  1 / 20.
\<close>

theorem C3_counterexample:
  "cell_of (saliency (flat_tensor 224 224 (grey (1 / 2))) [Val (9 / 10), Val (1 / 20), Val (1 / 20)])
      112 36 = Some (Val 0)
   \<and> cell fixed_pattern 112 36 = Val (1 / 20)
   \<and> fallback_spec 224 224 112 36 = 1 / 20
   \<and> map_sum id (less_num (Val 0))
        (cell_in (saliency2 65536 (flat_tensor 224 224 (grey (1 / 2)))
           [Val (9 / 10), Val (1 / 20), Val (1 / 20)]) 112 32) = Inr True
   \<and> cell fixed_pattern 112 32 = Val 0
   \<and> fallback_spec 224 224 112 32 = 0"
proof -
  have "cell_of (saliency (flat_tensor 224 224 (grey (1 / 2))) (map Val [9 / 10, 1 / 20, 1 / 20]))
      112 36 = Some (Val 0)"
    using saliency_flat [of "grey (1 / 2)" 112 36 "[9 / 10, 1 / 20, 1 / 20]"]
    by (simp add: grey_def mask_weight_112_36)
  moreover have "cell_in (saliency2 65536 (flat_tensor 224 224 (grey (1 / 2)))
           (map Val [9 / 10, 1 / 20, 1 / 20])) 112 32 =
         Inr (Val ((gaussian_weight_spec 224 224 112 32 - gaussian_weight_spec 224 224 0 0)
                      / (1 - gaussian_weight_spec 224 224 0 0)))"
    by (rule saliency2_flat) (simp_all add: grey_def)
  moreover have "0 < (gaussian_weight_spec 224 224 112 32 - gaussian_weight_spec 224 224 0 0)
                      / (1 - gaussian_weight_spec 224 224 0 0)"
    using gaussian_112_32 gaussian_corner_less_1 [of 224 224] by simp
  ultimately show ?thesis
    by (simp add: fixed_pattern_def fallback_spec_def distance_112_36 distance_112_32)
qed

text \<open>
  C3, amended: for an image of one colour whose mean intensity is not zero, and every
  non-empty vector of finite scores, the raw heat map is the mask times the boost, its
  range is not zero, and the fallback is not taken. The map is the mask of the component
  scaled to its range: (weight - least weight) / (greatest weight - least weight), the
  least weight being that of the corner (0, 0) and the greatest that of the centre
  (112, 112). It does not depend on the probability vector. This holds of both
  components, each with its own mask. Numbers are exact here; the floats of the code
  agree up to rounding.
\<close>

theorem C3_flat_image_normalised_mask:
  assumes "colour 0 + colour 1 + colour 2 \<noteq> 0" "y < 224" "x < 224" "ps \<noteq> []" "qs \<noteq> []"
    "length ps \<le> maxArgs" "length qs \<le> maxArgs" "50176 \<le> maxArgs"
  shows "\<not> strict_eq
            (sub (Math_max (dataSync (heatmap_of2 (squeezed_of (flat_tensor 224 224 colour)) (map Val ps))))
                 (Math_min (dataSync (heatmap_of2 (squeezed_of (flat_tensor 224 224 colour)) (map Val ps)))))
            (Val 0)
         \<and> cell_in (saliency2 maxArgs (flat_tensor 224 224 colour) (map Val ps)) y x =
           Inr (Val ((mask_weight2 224 224 y x - mask_weight2 224 224 0 0)
                     / (mask_weight2 224 224 112 112 - mask_weight2 224 224 0 0)))
         \<and> cell_in (saliency2 maxArgs (flat_tensor 224 224 colour) (map Val ps)) y x =
           cell_in (saliency2 maxArgs (flat_tensor 224 224 colour) (map Val qs)) y x
         \<and> \<not> strict_eq
            (sub (Math_max (dataSync (heatmap_of (squeezed_of (flat_tensor 224 224 colour)) (map Val ps))))
                 (Math_min (dataSync (heatmap_of (squeezed_of (flat_tensor 224 224 colour)) (map Val ps)))))
            (Val 0)
         \<and> cell_of (saliency (flat_tensor 224 224 colour) (map Val ps)) y x =
           Some (Val ((mask_weight 224 224 y x - mask_weight 224 224 0 0)
                     / (mask_weight 224 224 112 112 - mask_weight 224 224 0 0)))
         \<and> cell_of (saliency (flat_tensor 224 224 colour) (map Val ps)) y x =
           cell_of (saliency (flat_tensor 224 224 colour) (map Val qs)) y x"
proof -
  have c2: "gaussian_weight_spec 224 224 112 112 = 1"
    using gaussian_centre [of 224 224] by simp
  have s2: "cell_in (saliency2 maxArgs (flat_tensor 224 224 colour) (map Val rs)) y x =
           Inr (Val ((mask_weight2 224 224 y x - mask_weight2 224 224 0 0)
                     / (mask_weight2 224 224 112 112 - mask_weight2 224 224 0 0)))"
    if "rs \<noteq> []" "length rs \<le> maxArgs" for rs
    using saliency2_flat [OF assms(1,2,3) that assms(8)] by (simp add: mask_weight2_is_gaussian c2)
  have s1: "cell_of (saliency (flat_tensor 224 224 colour) (map Val rs)) y x =
           Some (Val ((mask_weight 224 224 y x - mask_weight 224 224 0 0)
                     / (mask_weight 224 224 112 112 - mask_weight 224 224 0 0)))" for rs
    using saliency_flat [OF assms(1,2,3), of rs] by (simp add: mask_weight_corner mask_weight_centre)
  show ?thesis
    using flat_range_nonzero2 [OF assms(1), of 224 224 ps] flat_range_nonzero [OF assms(1), of ps]
      s2 [OF assms(4,6)] s2 [OF assms(5,7)] s1 [of ps] s1 [of qs]
    by simp
qed

theorem C3_flat_image_normalised_mask_witness:
  "\<not> strict_eq
      (sub (Math_max (dataSync (heatmap_of2 (squeezed_of (flat_tensor 224 224 (grey (1 / 2))))
              (map Val [9 / 10, 1 / 20, 1 / 20]))))
           (Math_min (dataSync (heatmap_of2 (squeezed_of (flat_tensor 224 224 (grey (1 / 2))))
              (map Val [9 / 10, 1 / 20, 1 / 20])))))
      (Val 0)
   \<and> cell_in (saliency2 65536 (flat_tensor 224 224 (grey (1 / 2))) (map Val [9 / 10, 1 / 20, 1 / 20])) 112 32 =
     cell_in (saliency2 65536 (flat_tensor 224 224 (grey (1 / 2))) (map Val [1 / 3])) 112 32
   \<and> cell_of (saliency (flat_tensor 224 224 (grey (1 / 2))) (map Val [9 / 10, 1 / 20, 1 / 20])) 112 32 =
     cell_of (saliency (flat_tensor 224 224 (grey (1 / 2))) (map Val [1 / 3])) 112 32"
proof -
  have h: "grey (1 / 2) 0 + grey (1 / 2) 1 + grey (1 / 2) 2 \<noteq> 0" by (simp add: grey_def)
  have a: "(112::nat) < 224" and b: "(32::nat) < 224" by simp_all
  have p: "[9 / 10, 1 / 20, 1 / 20 :: real] \<noteq> []" and q: "[1 / 3 :: real] \<noteq> []" by simp_all
  have lp: "length [9 / 10, 1 / 20, 1 / 20 :: real] \<le> 65536" and lq: "length [1 / 3 :: real] \<le> 65536"
    and m: "(50176::nat) \<le> 65536" by simp_all
  show ?thesis
    using C3_flat_image_normalised_mask [OF h a b p q lp lq m] by blast
qed

text \<open>
  The fixed pattern of the code is the fallback formula of the specification on the
  224 by 224 grid, and it is what the code returns when the range of the raw heat map is
  exactly zero.
\<close>

lemma fixed_pattern_is_fallback_spec:
  "cell fixed_pattern y x = Val (fallback_spec 224 224 y x)"
  by (simp add: fixed_pattern_def fallback_spec_def)

lemma normalizedHeatmap_zero_range:
  "strict_eq (sub (Math_max (dataSync hm)) (Math_min (dataSync hm))) (Val 0)
   \<Longrightarrow> normalizedHeatmap hm = fixed_pattern"
  by (simp add: normalizedHeatmap_def Let_def)

subsection \<open>The colours\<close>


subsection \<open>Inputs that the specification rejects\<close>

text \<open>
  C5. With an empty probability vector the synthesis fails: the function throws its
  invalid-input error before any tensor is touched, no saliency map is produced, and
  \<^verbatim>\<open>generateGradCAM\<close> returns its error sign.
\<close>

theorem C5_empty_vector_is_rejected:
  "saliency2 maxArgs t [] = Inl InvalidInput
   \<and> generateGradCAM2 maxArgs t [] = Some fallbackImageData"
  by (simp add: saliency2_def generateGradCAM2_def)

text \<open>
  C6, as stated: a tensor of shape [1, 100, 100, 3] is rejected. Neither component
  rejects it. For a mid-grey tensor of that shape both return a map of 224 rows and 224
  columns; in the reworked component the map is 1 at its centre (112, 112), which is the
  centre (50, 50) of the raw map, and 0 at its corner.
\<close>

theorem C6_counterexample:
  "height (flat_tensor 100 100 (grey (1 / 2))) = 100
   \<and> width (flat_tensor 100 100 (grey (1 / 2))) = 100
   \<and> saliency (flat_tensor 100 100 (grey (1 / 2))) [Val (9 / 10), Val (1 / 20), Val (1 / 20)] \<noteq> None
   \<and> map_option rows (saliency (flat_tensor 100 100 (grey (1 / 2)))
        [Val (9 / 10), Val (1 / 20), Val (1 / 20)]) = Some 224
   \<and> map_option cols (saliency (flat_tensor 100 100 (grey (1 / 2)))
        [Val (9 / 10), Val (1 / 20), Val (1 / 20)]) = Some 224
   \<and> map_sum id rows (saliency2 65536 (flat_tensor 100 100 (grey (1 / 2)))
        [Val (9 / 10), Val (1 / 20), Val (1 / 20)]) = Inr 224
   \<and> map_sum id cols (saliency2 65536 (flat_tensor 100 100 (grey (1 / 2)))
        [Val (9 / 10), Val (1 / 20), Val (1 / 20)]) = Inr 224
   \<and> cell_in (saliency2 65536 (flat_tensor 100 100 (grey (1 / 2)))
        [Val (9 / 10), Val (1 / 20), Val (1 / 20)]) 112 112 = Inr (Val 1)
   \<and> cell_in (saliency2 65536 (flat_tensor 100 100 (grey (1 / 2)))
        [Val (9 / 10), Val (1 / 20), Val (1 / 20)]) 0 0 = Inr (Val 0)"
proof -
  have a: "saliency (flat_tensor 100 100 (grey (1 / 2))) [Val (9 / 10), Val (1 / 20), Val (1 / 20)] \<noteq> None
   \<and> map_option rows (saliency (flat_tensor 100 100 (grey (1 / 2)))
        [Val (9 / 10), Val (1 / 20), Val (1 / 20)]) = Some 224
   \<and> map_option cols (saliency (flat_tensor 100 100 (grey (1 / 2)))
        [Val (9 / 10), Val (1 / 20), Val (1 / 20)]) = Some 224"
    by (simp add: saliency_def squeeze0_flat normalizedHeatmap_shape)
  have "saliency2 65536 (flat_tensor 100 100 (grey (1 / 2))) [Val (9 / 10), Val (1 / 20), Val (1 / 20)]
        = Inr (normalizedHeatmap (heatmap_of2 (squeezed_of (flat_tensor 100 100 (grey (1 / 2))))
                 [Val (9 / 10), Val (1 / 20), Val (1 / 20)]))"
    by (rule saliency2_ok) (simp_all add: flat_tensor_def)
  then have b: "map_sum id rows (saliency2 65536 (flat_tensor 100 100 (grey (1 / 2)))
        [Val (9 / 10), Val (1 / 20), Val (1 / 20)]) = Inr 224
   \<and> map_sum id cols (saliency2 65536 (flat_tensor 100 100 (grey (1 / 2)))
        [Val (9 / 10), Val (1 / 20), Val (1 / 20)]) = Inr 224"
    by (simp add: normalizedHeatmap_shape)
  have c: "cell_in (saliency2 65536 (flat_tensor 100 100 (grey (1 / 2)))
        (map Val [9 / 10, 1 / 20, 1 / 20])) 112 112 = Inr (Val 1)
   \<and> cell_in (saliency2 65536 (flat_tensor 100 100 (grey (1 / 2)))
        (map Val [9 / 10, 1 / 20, 1 / 20])) 0 0 = Inr (Val 0)"
    by (rule saliency2_flat_100) (simp_all add: grey_def)
  show ?thesis using a b c by (simp add: flat_tensor_def)
qed

text \<open>
  C6, amended: a tensor of batch 1 whose height and width are not 224 is accepted. The
  raw heat map has the height and the width of the tensor. When it is finite and its
  range is not zero, the map returned has 224 rows and 224 columns and is the raw map
  resized bilinearly and then scaled to its range, which is cell for cell the raw map
  scaled to its range and then resized, as steps 6 and 7 of the specification have it:
  nothing is cut off. The number of scores and the number of cells must be within what a
  spread call accepts. The older copy does the same (\<open>saliency_is_spec\<close>).
\<close>

theorem C6_other_sizes_are_resized:
  assumes "batch t = 1" "0 < height t" "0 < width t" "ps \<noteq> []"
    "length ps \<le> maxArgs" "height t * width t \<le> maxArgs"
    and "\<And>y x. y < height t \<Longrightarrow> x < width t \<Longrightarrow>
                cell (heatmap_of2 (squeezed_of t) ps) y x = Val (f y x)"
    and "\<not> strict_eq (sub (Math_max (dataSync (heatmap_of2 (squeezed_of t) ps)))
                (Math_min (dataSync (heatmap_of2 (squeezed_of t) ps)))) (Val 0)"
    and "y < 224" "x < 224"
  shows "\<exists>m. saliency2 maxArgs t ps = Inr m \<and> rows m = 224 \<and> cols m = 224
           \<and> cell m y x = cell (saliency_spec (heatmap_of2 (squeezed_of t) ps)) y x"
  using assms by (rule saliency2_is_spec)

theorem C6_other_sizes_are_resized_witness:
  "\<exists>m. saliency2 65536 (flat_tensor 100 100 (grey (1 / 2))) (map Val [9 / 10, 1 / 20, 1 / 20]) = Inr m
        \<and> rows m = 224 \<and> cols m = 224
        \<and> cell m 112 112 =
            cell (saliency_spec (heatmap_of2 (squeezed_of (flat_tensor 100 100 (grey (1 / 2))))
                    (map Val [9 / 10, 1 / 20, 1 / 20]))) 112 112"
proof -
  let ?t = "flat_tensor 100 100 (grey (1 / 2))"
  let ?ps = "map Val [9 / 10, 1 / 20, 1 / 20]"
  obtain bo where bo: "confidenceBoost2 ?ps = Val bo" "0 < bo"
    using boost2_positive by blast
  have nz: "grey (1 / 2) 0 + grey (1 / 2) 1 + grey (1 / 2) 2 \<noteq> 0" by (simp add: grey_def)
  have raw: "heatmap_of2 (squeezed_of ?t) ?ps =
      \<lparr>rows = 100, cols = 100, cell = (\<lambda>y x. Val (gaussian_weight_spec 100 100 y x * bo))\<rparr>"
    using raw2_flat [of 100 100 "grey (1 / 2)" ?ps bo] nz bo(1) by simp
  have fin: "\<And>y x. y < height ?t \<Longrightarrow> x < width ?t \<Longrightarrow>
      cell (heatmap_of2 (squeezed_of ?t) ?ps) y x = Val (gaussian_weight_spec 100 100 y x * bo)"
    using raw by simp
  have rng: "\<not> strict_eq (sub (Math_max (dataSync (heatmap_of2 (squeezed_of ?t) ?ps)))
                (Math_min (dataSync (heatmap_of2 (squeezed_of ?t) ?ps)))) (Val 0)"
    using flat_range_nonzero2 [OF nz, of 100 100 "[9 / 10, 1 / 20, 1 / 20]"] by simp
  have b1: "batch ?t = 1" and h: "0 < height ?t" and w: "0 < width ?t"
    and sz: "height ?t * width ?t \<le> 65536"
    by (simp_all add: flat_tensor_def)
  have ne: "?ps \<noteq> []" and len: "length ?ps \<le> 65536" by simp_all
  have yx: "(112::nat) < 224" by simp
  show ?thesis
    by (rule C6_other_sizes_are_resized [OF b1 h w ne len sz fin rng yx yx])
qed

subsection \<open>Division by zero\<close>

lemma heatmapPixel_NaN:
  "heatmapPixel NaN = \<lparr>red = 0, green = 0, blue = 0, alpha = 200\<rparr>"
  by (simp add: heatmapPixel_def clipByValue_def toUint8Clamped_def round_half_even_def)

text \<open>
  C7. The claim: when the greatest luminance is 0, every element is taken as 0 and no
  \<^verbatim>\<open>NaN\<close> reaches the map. The code divides by the greatest luminance without a
  test (line 304). For a black image of 300 by 300 pixels the greatest luminance is 0,
  every quotient is 0 / 0, and the map returned is \<^verbatim>\<open>NaN\<close> at the centre and at the
  corner (at every cell: \<open>saliency_black\<close>). The test \<^verbatim>\<open>range === 0\<close> that guards the
  second division does not catch it, since the range is \<^verbatim>\<open>NaN\<close> too. The image data
  made from such a map is black with alpha 200 (\<open>heatmapPixel_NaN\<close>). The reworked
  component divides in the same way (\<open>saliency2_black\<close>).
\<close>

theorem C7_black_image_gives_NaN:
  "tf_max (grayscale \<lparr>height3 = 224, width3 = 224, channels3 = 3, at3 = (\<lambda>y x d. Val (grey 0 d))\<rparr>) = Val 0
   \<and> cell_of (saliency (preprocessImage (solid_image 300 300 0))
        [Val (9 / 10), Val (1 / 20), Val (1 / 20)]) 112 112 = Some NaN
   \<and> cell_of (saliency (preprocessImage (solid_image 300 300 0))
        [Val (9 / 10), Val (1 / 20), Val (1 / 20)]) 0 0 = Some NaN"
  using saliency_black [of "grey 0" 112 112] saliency_black [of "grey 0" 0 0]
  by (simp add: preprocess_solid grey_def grayscale_flat tf_max_flat)

subsection \<open>A solid grey image\<close>

text \<open>
  C8. A solid grey image of 300 by 300 pixels, of any grey level but black (mid-grey is
  128), goes through \<^verbatim>\<open>preprocessImage\<close> and the heat map of \<^verbatim>\<open>generateGradCAM\<close>
  with any non-empty vector of finite scores: the map is 224 by 224 and its value at the
  centre (112, 112) is strictly greater than its value at the corner (0, 0). The map is
  the mask scaled to its range, 1 at the centre and 0 at the corner. The reworked
  component gives the same two values (\<open>saliency2_centre_above_corner\<close>).
\<close>

theorem C8_centre_above_corner:
  assumes "g \<noteq> 0" "ps \<noteq> []"
  shows "\<exists>m. saliency (preprocessImage (solid_image 300 300 g)) (map Val ps) = Some m
           \<and> rows m = 224 \<and> cols m = 224 \<and> less_num (cell m 0 0) (cell m 112 112)"
proof -
  let ?colour = "grey (real (unat g) / 255)"
  have "0 < unat g" using assms(1) by (simp add: unat_gt_0)
  then have "0 < real (unat g)" by (simp only: of_nat_0_less_iff)
  then have nz: "?colour 0 + ?colour 1 + ?colour 2 \<noteq> 0" by (simp add: grey_def)
  obtain m where m: "saliency (flat_tensor 224 224 ?colour) (map Val ps) = Some m"
    "rows m = 224" "cols m = 224"
    using saliency_flat_some by blast
  have "cell m 0 0 = Val 0"
    using saliency_flat [OF nz, of 0 0 ps] m(1) by (simp add: cell_of_def mask_weight_corner)
  moreover have "cell m 112 112 = Val 1"
    using saliency_flat [OF nz, of 112 112 ps] m(1) by (simp add: cell_of_def mask_weight_centre)
  ultimately show ?thesis using m by (simp add: preprocess_solid)
qed

theorem C8_centre_above_corner_witness:
  "(128 :: 8 word) \<noteq> 0 \<and> [9 / 10, 1 / 20, 1 / 20 :: real] \<noteq> []
   \<and> (\<exists>m. saliency (preprocessImage (solid_image 300 300 128))
              (map Val [9 / 10, 1 / 20, 1 / 20]) = Some m
           \<and> rows m = 224 \<and> cols m = 224 \<and> less_num (cell m 0 0) (cell m 112 112))"
  using C8_centre_above_corner [of 128 "[9 / 10, 1 / 20, 1 / 20]"] by simp

subsection \<open>The reported predictions\<close>

text \<open>
  C9. Every score of the classifier is clamped to [0, 1] before it is used. The reported
  confidences are the clamped scores of the first three positions, and the boost
  computed from the scores as they come is the boost of the clamped scores. The scores
  1.5, 0.2, -0.1 are reported as 1, 0.2, 0 and give the boost 1.
\<close>

theorem C9_scores_are_clamped:
  "mset (prediction_results2 d) =
     mset (map (\<lambda>i. \<lparr>label = JANKEN_LABELS ! i, confidence = clamp_spec (d ! i) 0 1\<rparr>)
            [0..<min 3 (length d)])
   \<and> confidenceBoost2 (map Val d) = confidenceBoost2 (map Val (map (\<lambda>c. clamp_spec c 0 1) d))
   \<and> map confidence (prediction_results2 [3 / 2, 1 / 5, - 1 / 10]) = [1, 1 / 5, 0]
   \<and> confidenceBoost2 (map Val [3 / 2, 1 / 5, - 1 / 10]) = Val 1"
proof -
  have "map confidence (prediction_results2 [3 / 2, 1 / 5, - 1 / 10]) = [1, 1 / 5, 0]"
    by (simp add: prediction_results2_def enumerate_eq_zip label_of2_def JANKEN_LABELS_def upt_rec)
  moreover have "confidenceBoost2 (map Val [3 / 2, 1 / 5, - 1 / 10]) = Val 1"
    by (simp add: confidenceBoost2_def Math_max_def)
  ultimately show ?thesis
    using results2_mset [of d] confidenceBoost2_of_clamped [of d]
    by (simp add: clamp_spec_def min.commute)
qed

text \<open>
  C10. After an inference the reported list has at most three entries, they are the first
  three scores of the classifier, each with the label of its position, and the list is
  in non-increasing order of confidence. The list of the reworked component has the same
  length and order (\<open>results2_first_three_sorted\<close>, \<open>results2_mset\<close>).
\<close>

theorem C10_results_first_three_sorted:
  "length (prediction_results d) \<le> 3
   \<and> sorted_wrt (\<lambda>a b. confidence b \<le> confidence a) (prediction_results d)
   \<and> mset (prediction_results d) =
       mset (map (\<lambda>i. \<lparr>label = JANKEN_LABELS ! i, confidence = d ! i\<rparr>) [0..<min 3 (length d)])"
  using results_length results_sorted results_mset by blast

end
